theory Spec2Isabelle
  imports Complex_Main
begin

section \<open>The B-spline interpolator adapter of gryds (interpolators/bspline\_cuda.py)\<close>

text \<open>
  The class \<^verbatim>\<open>BSplineInterpolatorCUDA\<close> binds an image to a default
  interpolation configuration and forwards \<^verbatim>\<open>sample\<close>,
  \<^verbatim>\<open>resample\<close> and \<^verbatim>\<open>transform\<close> to an interpolation kernel.
  The embedding below follows the source statement by statement. The numpy operations the
  source calls on arrays (reshape, transpose, astype) are modelled on shapes and flat
  element lists; the collaborators that are not part of the file (the kernel, the Grid
  class, the Interpolator base class and the configured precision) are parameters,
  collected in one record.
\<close>

subsection \<open>Python values and exceptions\<close>

text \<open>
  The values that reach the configuration parameters \<^verbatim>\<open>mode\<close>,
  \<^verbatim>\<open>order\<close> and \<^verbatim>\<open>cval\<close>: None, booleans, integers and
  strings. \<open>truthy\<close> is Python's truth test, as \<^verbatim>\<open>x if x else d\<close> applies it.
\<close>

datatype pyval = PNone | PBool bool | PInt int | PStr string

fun truthy :: "pyval \<Rightarrow> bool" where
  "truthy PNone = False"
| "truthy (PBool b) = b"
| "truthy (PInt i) = (i \<noteq> 0)"
| "truthy (PStr s) = (s \<noteq> [])"

text \<open>
  Exceptions are values. \<open>ValueError\<close> is what numpy's reshape raises; the other
  constructors are there for the collaborators, which may raise anything.
\<close>

datatype error = ValueError | TypeError | RuntimeError | NotImplementedError

subsection \<open>Arrays\<close>

text \<open>
  An array is its shape, its elements in C order and its dtype. The element type \<open>'a\<close>
  and the type of dtypes \<open>'d\<close> are left open.
\<close>

record ('a, 'd) ndarray =
  shape :: "nat list"
  flat :: "'a list"
  dtype :: 'd

definition ndim :: "('a, 'd) ndarray \<Rightarrow> nat" where
  "ndim a = length (shape a)"

definition size_nd :: "('a, 'd) ndarray \<Rightarrow> nat" where
  "size_nd a = prod_list (shape a)"

definition wf_array :: "('a, 'd) ndarray \<Rightarrow> bool" where
  "wf_array a = (length (flat a) = prod_list (shape a))"

text \<open>
  \<^verbatim>\<open>a.reshape(newshape)\<close>. A negative entry of the new shape is the unknown
  dimension; numpy raises ValueError when there are two of them, when the known entries
  multiply to zero or do not divide the array's size, and, with no unknown entry, when
  the sizes differ. The elements keep their C order.
\<close>

definition reshape :: "('a, 'd) ndarray \<Rightarrow> int list \<Rightarrow> error + ('a, 'd) ndarray" where
  "reshape a newshape =
     (let s_original = size_nd a;
          s_known = prod_list (map nat (filter (\<lambda>d. 0 \<le> d) newshape));
          unknown = filter (\<lambda>d. d < 0) newshape
      in if 1 < length unknown then Inl ValueError
         else if length unknown = 1 then
           (if s_known = 0 \<or> s_original mod s_known \<noteq> 0 then Inl ValueError
            else Inr (a\<lparr>shape := map (\<lambda>d. if d < 0 then s_original div s_known else nat d) newshape\<rparr>))
         else if s_original \<noteq> s_known then Inl ValueError
         else Inr (a\<lparr>shape := map nat newshape\<rparr>))"

text \<open>
  \<^verbatim>\<open>np.transpose(a)\<close> reverses the axes: the element at index \<open>idx\<close> of the
  result is the element at the reversed index of \<open>a\<close>. \<open>all_indices\<close> lists the
  indices of a shape in C order, \<open>ravel_index\<close> is the offset of an index in the flat
  element list.
\<close>

fun all_indices :: "nat list \<Rightarrow> nat list list" where
  "all_indices [] = [[]]"
| "all_indices (n # ns) = concat (map (\<lambda>i. map ((#) i) (all_indices ns)) [0..<n])"

fun ravel_index :: "nat list \<Rightarrow> nat list \<Rightarrow> nat" where
  "ravel_index (n # ns) (i # idx) = i * prod_list ns + ravel_index ns idx"
| "ravel_index _ _ = 0"

definition np_transpose :: "('a, 'd) ndarray \<Rightarrow> ('a, 'd) ndarray" where
  "np_transpose a =
     a\<lparr>shape := rev (shape a),
       flat := map (\<lambda>idx. flat a ! ravel_index (shape a) (rev idx)) (all_indices (rev (shape a)))\<rparr>"

text \<open>
  \<^verbatim>\<open>a.astype(d)\<close>: a copy of \<open>a\<close> with dtype \<open>d\<close>. Elements that already
  have dtype \<open>d\<close> are copied as they are; otherwise each one is converted by the
  conversion \<open>cast\<close> from the old dtype to the new one.
\<close>

definition astype :: "('d \<Rightarrow> 'd \<Rightarrow> 'a \<Rightarrow> 'a) \<Rightarrow> ('a, 'd) ndarray \<Rightarrow> 'd \<Rightarrow> ('a, 'd) ndarray" where
  "astype cast a d =
     (if dtype a = d then a else a\<lparr>flat := map (cast (dtype a) d) (flat a), dtype := d\<rparr>)"

subsection \<open>The collaborators\<close>

text \<open>
  What the file imports and does not define: \<^verbatim>\<open>DTYPE\<close> of the package's config,
  the element conversion behind \<^verbatim>\<open>astype\<close>, the kernel
  \<^verbatim>\<open>cupyx.scipy.ndimage.map_coordinates\<close> (with the transfers to and from the
  device, which copy), the methods \<^verbatim>\<open>scaled_to\<close> and \<^verbatim>\<open>transform\<close> and
  the attribute \<^verbatim>\<open>grid\<close> of the Grid class, and the constructor of the
  Interpolator base class, which sets \<^verbatim>\<open>self.image\<close> and \<^verbatim>\<open>self.grid\<close>.
  Each is a parameter; each call may raise. \<open>'g\<close> is the type of Grid objects and
  \<open>'t\<close> the type of Transform objects.
\<close>

record ('a, 'd, 'g, 't) collaborators =
  DTYPE :: 'd
  cast_elem :: "'d \<Rightarrow> 'd \<Rightarrow> 'a \<Rightarrow> 'a"
  map_coordinates :: "('a, 'd) ndarray \<Rightarrow> ('a, 'd) ndarray \<Rightarrow> pyval \<Rightarrow> pyval \<Rightarrow> pyval
                        \<Rightarrow> error + ('a, 'd) ndarray"
  Grid_scaled_to :: "'g \<Rightarrow> nat list \<Rightarrow> error + 'g"
  Grid_transform :: "'g \<Rightarrow> 't list \<Rightarrow> error + 'g"
  Grid_grid :: "'g \<Rightarrow> ('a, 'd) ndarray"
  Interpolator_init :: "('a, 'd) ndarray \<Rightarrow> error + ('a, 'd) ndarray \<times> 'g"

subsection \<open>The adapter\<close>

record ('a, 'd, 'g) interpolator =
  image_nd :: "('a, 'd) ndarray"
  grid :: 'g
  default_mode :: pyval
  default_order :: pyval
  default_cval :: pyval

text \<open>
  \<^verbatim>\<open>__init__(self, image, mode='constant', order=1, cval=0)\<close>: the base class
  constructor, then the three defaults.
\<close>

definition init ::
  "('a, 'd, 'g, 't) collaborators \<Rightarrow> ('a, 'd) ndarray \<Rightarrow> pyval \<Rightarrow> pyval \<Rightarrow> pyval
     \<Rightarrow> error + ('a, 'd, 'g) interpolator" where
  "init env img mode order cval =
     (case Interpolator_init env img of
        Inl e \<Rightarrow> Inl e
      | Inr (base_image, base_grid) \<Rightarrow>
          Inr \<lparr>image_nd = base_image, grid = base_grid,
               default_mode = mode, default_order = order, default_cval = cval\<rparr>)"

text \<open>
  A method call yields what it returns or raises, and the instance as the call leaves it.
\<close>

type_synonym ('a, 'd, 'g) outcome = "(error + ('a, 'd) ndarray) \<times> ('a, 'd, 'g) interpolator"

text \<open>
  \<^verbatim>\<open>sample(self, points, mode=None, order=None, cval=None)\<close>, lines 68 to 84.
\<close>

definition sample ::
  "('a, 'd, 'g, 't) collaborators \<Rightarrow> ('a, 'd, 'g) interpolator \<Rightarrow> ('a, 'd) ndarray
     \<Rightarrow> pyval \<Rightarrow> pyval \<Rightarrow> pyval \<Rightarrow> ('a, 'd, 'g) outcome" where
  "sample env self points mode order cval =
     (let new_mode = (if truthy mode then mode else default_mode self);
          new_order = (if truthy order then order else default_order self);
          new_cval = (if truthy cval then cval else default_cval self)
      in case reshape points [int (ndim (image_nd self)), - 1] of
           Inl e \<Rightarrow> (Inl e, self)
         | Inr reshaped \<Rightarrow>
             (case map_coordinates env (image_nd self) (np_transpose reshaped)
                     new_mode new_order new_cval of
                Inl e \<Rightarrow> (Inl e, self)
              | Inr sample_gpu \<Rightarrow>
                  (case reshape sample_gpu (map int (shape (image_nd self))) of
                     Inl e \<Rightarrow> (Inl e, self)
                   | Inr smp \<Rightarrow> (Inr (astype (cast_elem env) smp (DTYPE env)), self))))"

text \<open>
  \<^verbatim>\<open>resample(self, grid, mode=None, order=None, cval=None)\<close>, lines 104 to 109.
\<close>

definition resample ::
  "('a, 'd, 'g, 't) collaborators \<Rightarrow> ('a, 'd, 'g) interpolator \<Rightarrow> 'g
     \<Rightarrow> pyval \<Rightarrow> pyval \<Rightarrow> pyval \<Rightarrow> ('a, 'd, 'g) outcome" where
  "resample env self g mode order cval =
     (case Grid_scaled_to env g (shape (image_nd self)) of
        Inl e \<Rightarrow> (Inl e, self)
      | Inr rescaled_grid \<Rightarrow>
          (case sample env self (Grid_grid env rescaled_grid) mode order cval of
             (Inl e, self') \<Rightarrow> (Inl e, self')
           | (Inr new_image, self') \<Rightarrow>
               (Inr (astype (cast_elem env) new_image (DTYPE env)), self')))"

text \<open>
  \<^verbatim>\<open>transform(self, *transforms, **kwargs)\<close>, lines 130 to 137. The keyword
  arguments are a dictionary from names to values.
\<close>

definition transform ::
  "('a, 'd, 'g, 't) collaborators \<Rightarrow> ('a, 'd, 'g) interpolator \<Rightarrow> 't list
     \<Rightarrow> (string \<rightharpoonup> pyval) \<Rightarrow> ('a, 'd, 'g) outcome" where
  "transform env self transforms kwargs =
     (let mode = (case kwargs ''mode'' of Some v \<Rightarrow> v | None \<Rightarrow> PNone);
          order = (case kwargs ''order'' of Some v \<Rightarrow> v | None \<Rightarrow> PNone);
          cval = (case kwargs ''cval'' of Some v \<Rightarrow> v | None \<Rightarrow> PNone)
      in case Grid_transform env (grid self) transforms of
           Inl e \<Rightarrow> (Inl e, self)
         | Inr transformed_grid \<Rightarrow>
             (case resample env self transformed_grid mode order cval of
                (Inl e, self') \<Rightarrow> (Inl e, self')
              | (Inr new_grid, self') \<Rightarrow>
                  (Inr (astype (cast_elem env) new_grid (DTYPE env)), self')))"

subsection \<open>Vocabulary of the properties\<close>

text \<open>
  The effective value of a configuration parameter: the per-call override when it is
  truthy, the instance default otherwise. \<open>with_defaults\<close> is an instance with other
  defaults, and \<open>kwarg\<close> reads a keyword argument that may be absent.
\<close>

definition effective :: "pyval \<Rightarrow> pyval \<Rightarrow> pyval" where
  "effective override dflt = (if truthy override then override else dflt)"

definition with_defaults ::
  "('a, 'd, 'g) interpolator \<Rightarrow> pyval \<Rightarrow> pyval \<Rightarrow> pyval \<Rightarrow> ('a, 'd, 'g) interpolator" where
  "with_defaults self mode order cval =
     self\<lparr>default_mode := mode, default_order := order, default_cval := cval\<rparr>"

definition kwarg :: "(string \<rightharpoonup> pyval) \<Rightarrow> string \<Rightarrow> pyval" where
  "kwarg kwargs k = (case kwargs k of Some v \<Rightarrow> v | None \<Rightarrow> PNone)"

text \<open>
  The keyword arguments without those whose value is falsy.
\<close>

definition without_falsy :: "(string \<rightharpoonup> pyval) \<Rightarrow> (string \<rightharpoonup> pyval)" where
  "without_falsy kwargs =
     (\<lambda>k. case kwargs k of Some v \<Rightarrow> (if truthy v then Some v else None) | None \<Rightarrow> None)"

subsection \<open>A one-dimensional instance of the collaborators\<close>

text \<open>
  To run the adapter on concrete inputs the parameters need values. The instance below is
  a small stand-in, not the code of the collaborators: arrays of rationals with dtypes
  named by strings, a kernel for one-dimensional images that knows the mode
  \<^verbatim>\<open>'constant'\<close> and the orders 0 (nearest sample) and 1 (linear interpolation),
  grids that are their coordinate arrays, and transforms that are translations.
\<close>

definition toy_pixel :: "rat list \<Rightarrow> rat \<Rightarrow> int \<Rightarrow> rat" where
  "toy_pixel xs fill i = (if 0 \<le> i \<and> i < int (length xs) then xs ! nat i else fill)"

definition toy_interp :: "rat list \<Rightarrow> rat \<Rightarrow> pyval \<Rightarrow> rat \<Rightarrow> rat" where
  "toy_interp xs fill order x =
     (if order = PInt 0 then toy_pixel xs fill \<lfloor>x + 1 / 2\<rfloor>
      else (let i = \<lfloor>x\<rfloor>; w = x - of_int i
            in (1 - w) * toy_pixel xs fill i + w * toy_pixel xs fill (i + 1)))"

definition toy_map_coordinates ::
  "(rat, string) ndarray \<Rightarrow> (rat, string) ndarray \<Rightarrow> pyval \<Rightarrow> pyval \<Rightarrow> pyval
     \<Rightarrow> error + (rat, string) ndarray" where
  "toy_map_coordinates input coordinates mode order cval =
     (if mode \<noteq> PStr ''constant'' then Inl ValueError
      else if order \<noteq> PInt 0 \<and> order \<noteq> PInt 1 then Inl NotImplementedError
      else if length (shape input) \<noteq> 1 \<or> length (shape coordinates) \<noteq> 2 then Inl RuntimeError
      else Inr \<lparr>shape = [hd (shape coordinates)],
                flat = map (toy_interp (flat input) (case cval of PInt c \<Rightarrow> of_int c | _ \<Rightarrow> 0) order)
                         (flat coordinates),
                dtype = dtype input\<rparr>)"

definition toy_scaled_to :: "(rat, string) ndarray \<Rightarrow> nat list \<Rightarrow> error + (rat, string) ndarray" where
  "toy_scaled_to g shp =
     (if length shp \<noteq> 1 then Inl NotImplementedError
      else Inr (g\<lparr>flat := map (\<lambda>x. x * of_nat (hd shp)) (flat g)\<rparr>))"

definition toy_transform :: "(rat, string) ndarray \<Rightarrow> rat list \<Rightarrow> error + (rat, string) ndarray" where
  "toy_transform g ts = Inr (g\<lparr>flat := map (\<lambda>x. x + sum_list ts) (flat g)\<rparr>)"

definition toy_init ::
  "(rat, string) ndarray \<Rightarrow> error + (rat, string) ndarray \<times> (rat, string) ndarray" where
  "toy_init img =
     (case shape img of
        [n] \<Rightarrow> Inr (img\<lparr>dtype := ''float32''\<rparr>,
                   \<lparr>shape = [1, n], flat = map (\<lambda>i. of_nat i / of_nat n) [0..<n],
                    dtype = ''float32''\<rparr>)
      | _ \<Rightarrow> Inl NotImplementedError)"

definition toy_env :: "(rat, string, (rat, string) ndarray, rat) collaborators" where
  "toy_env =
     \<lparr>DTYPE = ''float32'', cast_elem = (\<lambda>_ _ x. x), map_coordinates = toy_map_coordinates,
      Grid_scaled_to = toy_scaled_to, Grid_transform = toy_transform, Grid_grid = (\<lambda>g. g),
      Interpolator_init = toy_init\<rparr>"

text \<open>
  A two-pixel image with a dark and a bright pixel, bound with the defaults of the
  constructor's signature, and two sampling points.
\<close>

definition toy_image :: "(rat, string) ndarray" where
  "toy_image = \<lparr>shape = [2], flat = [0, 10], dtype = ''float64''\<rparr>"

definition toy_self :: "(rat, string, (rat, string) ndarray) interpolator" where
  "toy_self =
     \<lparr>image_nd = toy_image\<lparr>dtype := ''float32''\<rparr>,
      grid = \<lparr>shape = [1, 2], flat = [0, 1 / 2], dtype = ''float32''\<rparr>,
      default_mode = PStr ''constant'', default_order = PInt 1, default_cval = PInt 0\<rparr>"

definition toy_points :: "(rat, string) ndarray" where
  "toy_points = \<lparr>shape = [1, 2], flat = [1 / 4, 1], dtype = ''float64''\<rparr>"

section \<open>Properties\<close>

subsection \<open>The three methods, unfolded\<close>

text \<open>
  Each method as a chain of its fallible steps, with the configuration written through
  \<open>effective\<close>; none of them changes the instance; what \<open>astype\<close> returns.
\<close>

lemma sample_unfold:
  "sample env self points mode order cval =
     (case reshape points [int (ndim (image_nd self)), - 1] of
        Inl e \<Rightarrow> (Inl e, self)
      | Inr reshaped \<Rightarrow>
          (case map_coordinates env (image_nd self) (np_transpose reshaped)
                  (effective mode (default_mode self)) (effective order (default_order self))
                  (effective cval (default_cval self)) of
             Inl e \<Rightarrow> (Inl e, self)
           | Inr sample_gpu \<Rightarrow>
               (case reshape sample_gpu (map int (shape (image_nd self))) of
                  Inl e \<Rightarrow> (Inl e, self)
                | Inr smp \<Rightarrow> (Inr (astype (cast_elem env) smp (DTYPE env)), self))))"
  by (simp only: sample_def Let_def effective_def)

lemma sample_snd: "snd (sample env self points mode order cval) = self"
  apply (simp only: sample_unfold)
  apply (simp only: split: sum.split)
  apply (simp only: snd_conv)
  by blast

lemma sample_pair:
  "sample env self points mode order cval = (fst (sample env self points mode order cval), self)"
  using sample_snd[of env self points mode order cval]
  by (simp only: prod_eq_iff fst_conv snd_conv simp_thms)

lemma astype_dtype: "dtype (astype c a d) = d"
  by (simp add: astype_def)

lemma astype_same: "dtype a = d \<Longrightarrow> astype c a d = a"
  by (simp add: astype_def)

lemma astype_shape: "shape (astype c a d) = shape a"
  by (simp add: astype_def)

lemma astype_idem: "astype c (astype c a d) d = astype c a d"
  by (rule astype_same) (rule astype_dtype)

lemma sample_dtype:
  assumes "fst (sample env self points mode order cval) = Inr r"
  shows "dtype r = DTYPE env"
proof (cases "reshape points [int (ndim (image_nd self)), - 1]")
  case (Inl e)
  with assms show ?thesis by (simp only: sample_unfold sum.case fst_conv) simp
next
  case r1: (Inr reshaped)
  show ?thesis
  proof (cases "map_coordinates env (image_nd self) (np_transpose reshaped)
                  (effective mode (default_mode self)) (effective order (default_order self))
                  (effective cval (default_cval self))")
    case (Inl e)
    with assms r1 show ?thesis by (simp only: sample_unfold sum.case fst_conv) simp
  next
    case r2: (Inr sample_gpu)
    show ?thesis
    proof (cases "reshape sample_gpu (map int (shape (image_nd self)))")
      case (Inl e)
      with assms r1 r2 show ?thesis by (simp only: sample_unfold sum.case fst_conv) simp
    next
      case (Inr smp)
      with assms r1 r2 have "r = astype (cast_elem env) smp (DTYPE env)"
        by (simp only: sample_unfold sum.case fst_conv sum.inject)
      then show ?thesis by (simp only: astype_dtype)
    qed
  qed
qed

lemma resample_unfold:
  "resample env self g mode order cval =
     (case Grid_scaled_to env g (shape (image_nd self)) of
        Inl e \<Rightarrow> (Inl e, self)
      | Inr rescaled_grid \<Rightarrow>
          (case fst (sample env self (Grid_grid env rescaled_grid) mode order cval) of
             Inl e \<Rightarrow> (Inl e, self)
           | Inr new_image \<Rightarrow> (Inr (astype (cast_elem env) new_image (DTYPE env)), self)))"
  unfolding resample_def
  by (subst sample_pair) (simp only: prod.case)

lemma resample_snd: "snd (resample env self g mode order cval) = self"
  apply (simp only: resample_unfold)
  apply (simp only: split: sum.split)
  apply (simp only: snd_conv)
  by blast

lemma resample_pair:
  "resample env self g mode order cval = (fst (resample env self g mode order cval), self)"
  using resample_snd[of env self g mode order cval]
  by (simp only: prod_eq_iff fst_conv snd_conv simp_thms)

lemma resample_eq_sample:
  "resample env self g mode order cval =
     (case Grid_scaled_to env g (shape (image_nd self)) of
        Inl e \<Rightarrow> (Inl e, self)
      | Inr rescaled_grid \<Rightarrow> sample env self (Grid_grid env rescaled_grid) mode order cval)"
proof (cases "Grid_scaled_to env g (shape (image_nd self))")
  case (Inl e)
  then show ?thesis by (simp only: resample_unfold sum.case)
next
  case rg: (Inr rescaled_grid)
  let ?s = "sample env self (Grid_grid env rescaled_grid) mode order cval"
  show ?thesis
  proof (cases "fst ?s")
    case (Inl e)
    then have "?s = (Inl e, self)" using sample_pair[of env self "Grid_grid env rescaled_grid" mode order cval]
      by (simp only:)
    with rg Inl show ?thesis by (simp only: resample_unfold sum.case)
  next
    case (Inr new_image)
    then have d: "dtype new_image = DTYPE env" by (rule sample_dtype)
    from Inr have "?s = (Inr new_image, self)"
      using sample_pair[of env self "Grid_grid env rescaled_grid" mode order cval]
      by (simp only:)
    with rg Inr show ?thesis by (simp only: resample_unfold sum.case astype_same[OF d])
  qed
qed

lemma resample_dtype:
  assumes "fst (resample env self g mode order cval) = Inr r"
  shows "dtype r = DTYPE env"
proof (cases "Grid_scaled_to env g (shape (image_nd self))")
  case (Inl e)
  with assms show ?thesis by (simp only: resample_eq_sample sum.case fst_conv) simp
next
  case (Inr rescaled_grid)
  with assms have "fst (sample env self (Grid_grid env rescaled_grid) mode order cval) = Inr r"
    by (simp only: resample_eq_sample sum.case)
  then show ?thesis by (rule sample_dtype)
qed

lemma transform_unfold:
  "transform env self transforms kwargs =
     (case Grid_transform env (grid self) transforms of
        Inl e \<Rightarrow> (Inl e, self)
      | Inr transformed_grid \<Rightarrow>
          (case fst (resample env self transformed_grid
                       (kwarg kwargs ''mode'') (kwarg kwargs ''order'') (kwarg kwargs ''cval'')) of
             Inl e \<Rightarrow> (Inl e, self)
           | Inr new_grid \<Rightarrow> (Inr (astype (cast_elem env) new_grid (DTYPE env)), self)))"
  unfolding transform_def Let_def kwarg_def
  by (subst resample_pair) (simp only: prod.case)

lemma transform_snd: "snd (transform env self transforms kwargs) = self"
  apply (simp only: transform_unfold)
  apply (simp only: split: sum.split)
  apply (simp only: snd_conv)
  by blast

lemma transform_eq_resample:
  "transform env self transforms kwargs =
     (case Grid_transform env (grid self) transforms of
        Inl e \<Rightarrow> (Inl e, self)
      | Inr transformed_grid \<Rightarrow>
          resample env self transformed_grid
            (kwarg kwargs ''mode'') (kwarg kwargs ''order'') (kwarg kwargs ''cval''))"
proof (cases "Grid_transform env (grid self) transforms")
  case (Inl e)
  then show ?thesis by (simp only: transform_unfold sum.case)
next
  case tg: (Inr transformed_grid)
  let ?r = "resample env self transformed_grid
            (kwarg kwargs ''mode'') (kwarg kwargs ''order'') (kwarg kwargs ''cval'')"
  show ?thesis
  proof (cases "fst ?r")
    case (Inl e)
    then have "?r = (Inl e, self)"
      using resample_pair[of env self transformed_grid "kwarg kwargs ''mode''" "kwarg kwargs ''order''" "kwarg kwargs ''cval''"]
      by (simp only:)
    with tg Inl show ?thesis by (simp only: transform_unfold sum.case)
  next
    case (Inr new_grid)
    then have d: "dtype new_grid = DTYPE env" by (rule resample_dtype)
    from Inr have "?r = (Inr new_grid, self)"
      using resample_pair[of env self transformed_grid "kwarg kwargs ''mode''" "kwarg kwargs ''order''" "kwarg kwargs ''cval''"]
      by (simp only:)
    with tg Inr show ?thesis by (simp only: transform_unfold sum.case astype_same[OF d])
  qed
qed

lemma transform_dtype:
  assumes "fst (transform env self transforms kwargs) = Inr r"
  shows "dtype r = DTYPE env"
proof (cases "Grid_transform env (grid self) transforms")
  case (Inl e)
  with assms show ?thesis by (simp only: transform_eq_resample sum.case fst_conv) simp
next
  case (Inr transformed_grid)
  with assms have "fst (resample env self transformed_grid
            (kwarg kwargs ''mode'') (kwarg kwargs ''order'') (kwarg kwargs ''cval'')) = Inr r"
    by (simp only: transform_eq_resample sum.case)
  then show ?thesis by (rule resample_dtype)
qed

subsection \<open>What the results depend on\<close>

text \<open>
  The result of each method is determined by the image, the points or the grid, and the
  effective configuration.
\<close>

lemma effective_None: "effective PNone d = d"
  by (simp add: effective_def)

lemma effective_drop: "effective (effective x PNone) d = effective x d"
  by (simp add: effective_def)

lemma effective_falsy: "\<not> truthy x \<Longrightarrow> effective x d = d"
  by (simp add: effective_def)

lemma with_defaults_simps:
  "image_nd (with_defaults self m o' c) = image_nd self"
  "grid (with_defaults self m o' c) = grid self"
  "default_mode (with_defaults self m o' c) = m"
  "default_order (with_defaults self m o' c) = o'"
  "default_cval (with_defaults self m o' c) = c"
  by (simp_all add: with_defaults_def)

lemma kwarg_empty: "kwarg Map.empty k = PNone"
  by (simp add: kwarg_def)

lemma kwarg_without_falsy: "effective (kwarg (without_falsy kwargs) k) d = effective (kwarg kwargs k) d"
  by (simp add: kwarg_def without_falsy_def effective_def split: option.split)

lemma sample_fst_unfold:
  "fst (sample env self points mode order cval) =
     (case reshape points [int (ndim (image_nd self)), - 1] of
        Inl e \<Rightarrow> Inl e
      | Inr reshaped \<Rightarrow>
          (case map_coordinates env (image_nd self) (np_transpose reshaped)
                  (effective mode (default_mode self)) (effective order (default_order self))
                  (effective cval (default_cval self)) of
             Inl e \<Rightarrow> Inl e
           | Inr sample_gpu \<Rightarrow>
               (case reshape sample_gpu (map int (shape (image_nd self))) of
                  Inl e \<Rightarrow> Inl e
                | Inr smp \<Rightarrow> Inr (astype (cast_elem env) smp (DTYPE env)))))"
  by (simp only: sample_unfold sum.case_distrib[of fst] fst_conv)

lemma sample_depends:
  assumes "image_nd self' = image_nd self"
    and "effective mode' (default_mode self') = effective mode (default_mode self)"
    and "effective order' (default_order self') = effective order (default_order self)"
    and "effective cval' (default_cval self') = effective cval (default_cval self)"
  shows "fst (sample env self' points mode' order' cval') = fst (sample env self points mode order cval)"
  by (simp only: sample_fst_unfold assms)

lemma resample_fst_unfold:
  "fst (resample env self g mode order cval) =
     (case Grid_scaled_to env g (shape (image_nd self)) of
        Inl e \<Rightarrow> Inl e
      | Inr rescaled_grid \<Rightarrow> fst (sample env self (Grid_grid env rescaled_grid) mode order cval))"
  by (simp only: resample_eq_sample sum.case_distrib[of fst] fst_conv)

lemma resample_depends:
  assumes "image_nd self' = image_nd self"
    and "effective mode' (default_mode self') = effective mode (default_mode self)"
    and "effective order' (default_order self') = effective order (default_order self)"
    and "effective cval' (default_cval self') = effective cval (default_cval self)"
  shows "fst (resample env self' g mode' order' cval') = fst (resample env self g mode order cval)"
  by (simp only: resample_fst_unfold sample_depends[OF assms] assms(1))

lemma transform_fst_unfold:
  "fst (transform env self transforms kwargs) =
     (case Grid_transform env (grid self) transforms of
        Inl e \<Rightarrow> Inl e
      | Inr transformed_grid \<Rightarrow>
          fst (resample env self transformed_grid
                 (kwarg kwargs ''mode'') (kwarg kwargs ''order'') (kwarg kwargs ''cval'')))"
  by (simp only: transform_eq_resample sum.case_distrib[of fst] fst_conv)

lemma transform_depends:
  assumes "image_nd self' = image_nd self" and "grid self' = grid self"
    and "effective (kwarg kwargs' ''mode'') (default_mode self') = effective (kwarg kwargs ''mode'') (default_mode self)"
    and "effective (kwarg kwargs' ''order'') (default_order self') = effective (kwarg kwargs ''order'') (default_order self)"
    and "effective (kwarg kwargs' ''cval'') (default_cval self') = effective (kwarg kwargs ''cval'') (default_cval self)"
  shows "fst (transform env self' transforms kwargs') = fst (transform env self transforms kwargs)"
  by (simp only: transform_fst_unfold resample_depends[OF assms(1) assms(3) assms(4) assms(5)] assms(2))

lemma outcome_eqI:
  assumes "fst x = fst y" and "snd x = s" and "snd y = s"
  shows "x = y"
  using assms by (simp add: prod_eq_iff)

subsection \<open>Delegation between the methods\<close>

text \<open>
  Claim C4. For every grid and every combination of overrides,
  \<^verbatim>\<open>resample(grid, mode, order, cval)\<close> is \<^verbatim>\<open>sample\<close> applied to the
  coordinate array of \<^verbatim>\<open>grid.scaled_to(image.shape)\<close> with the same
  \<^verbatim>\<open>mode\<close>, \<^verbatim>\<open>order\<close> and \<^verbatim>\<open>cval\<close> forwarded unchanged: the same
  array, the same exception, the same instance afterwards. An exception of
  \<^verbatim>\<open>scaled_to\<close> is the exception of \<^verbatim>\<open>resample\<close>. The second
  \<^verbatim>\<open>astype(DTYPE)\<close> of \<^verbatim>\<open>resample\<close> finds the dtype already in place.
\<close>

theorem resample_refines_sample:
  "resample env self g mode order cval =
     (case Grid_scaled_to env g (shape (image_nd self)) of
        Inl e \<Rightarrow> (Inl e, self)
      | Inr rescaled_grid \<Rightarrow> sample env self (Grid_grid env rescaled_grid) mode order cval)"
  by (rule resample_eq_sample)

text \<open>
  An instance of C4: the default grid of the two-pixel image, resampled with the override
  \<^verbatim>\<open>order=0\<close>.
\<close>

theorem resample_refines_sample_witness:
  "resample toy_env toy_self (grid toy_self) PNone (PInt 0) PNone =
     sample toy_env toy_self \<lparr>shape = [1, 2], flat = [0, 1], dtype = ''float32''\<rparr>
       PNone (PInt 0) PNone
   \<and> fst (resample toy_env toy_self (grid toy_self) PNone (PInt 0) PNone) =
     Inr \<lparr>shape = [2], flat = [0, 10], dtype = ''float32''\<rparr>"
proof -
  have g: "Grid_scaled_to toy_env (grid toy_self) (shape (image_nd toy_self)) =
             Inr \<lparr>shape = [1, 2], flat = [0, 1], dtype = ''float32''\<rparr>"
    by code_simp
  have gg: "Grid_grid toy_env \<lparr>shape = [1, 2], flat = [0, 1], dtype = ''float32''\<rparr> =
              \<lparr>shape = [1, 2], flat = [0, 1], dtype = ''float32''\<rparr>"
    by (simp add: toy_env_def)
  have a: "resample toy_env toy_self (grid toy_self) PNone (PInt 0) PNone =
     sample toy_env toy_self \<lparr>shape = [1, 2], flat = [0, 1], dtype = ''float32''\<rparr>
       PNone (PInt 0) PNone"
    using resample_refines_sample[of toy_env toy_self "grid toy_self" PNone "PInt 0" PNone]
    by (simp only: g gg sum.case)
  have b: "fst (resample toy_env toy_self (grid toy_self) PNone (PInt 0) PNone) =
     Inr \<lparr>shape = [2], flat = [0, 10], dtype = ''float32''\<rparr>"
    by code_simp
  from a b show ?thesis by (rule conjI)
qed


text \<open>
  Claim C5. For every sequence of transforms and every combination of keyword overrides,
  \<^verbatim>\<open>transform(*transforms, ...)\<close> is \<^verbatim>\<open>resample\<close> applied to
  \<^verbatim>\<open>self.grid.transform(*transforms)\<close>, the instance's own grid with the transforms
  applied, with the keywords \<^verbatim>\<open>mode\<close>, \<^verbatim>\<open>order\<close> and \<^verbatim>\<open>cval\<close>
  forwarded unchanged (None for a keyword that is absent).
\<close>

theorem transform_refines_resample:
  "transform env self transforms kwargs =
     (case Grid_transform env (grid self) transforms of
        Inl e \<Rightarrow> (Inl e, self)
      | Inr transformed_grid \<Rightarrow>
          resample env self transformed_grid
            (kwarg kwargs ''mode'') (kwarg kwargs ''order'') (kwarg kwargs ''cval''))"
  by (rule transform_eq_resample)

text \<open>
  An instance of C5: a translation by a quarter pixel, with the keyword \<^verbatim>\<open>cval=8\<close>.
\<close>

theorem transform_refines_resample_witness:
  "transform toy_env toy_self [1 / 4] [''cval'' \<mapsto> PInt 8] =
     resample toy_env toy_self \<lparr>shape = [1, 2], flat = [1 / 4, 3 / 4], dtype = ''float32''\<rparr>
       PNone PNone (PInt 8)
   \<and> fst (transform toy_env toy_self [1 / 4] [''cval'' \<mapsto> PInt 8]) =
     Inr \<lparr>shape = [2], flat = [5, 9], dtype = ''float32''\<rparr>"
proof -
  have g: "Grid_transform toy_env (grid toy_self) [1 / 4] =
             Inr \<lparr>shape = [1, 2], flat = [1 / 4, 3 / 4], dtype = ''float32''\<rparr>"
    by code_simp
  have k: "kwarg [''cval'' \<mapsto> PInt 8] ''mode'' = PNone"
     "kwarg [''cval'' \<mapsto> PInt 8] ''order'' = PNone"
     "kwarg [''cval'' \<mapsto> PInt 8] ''cval'' = PInt 8"
    by (simp_all add: kwarg_def)
  have a: "transform toy_env toy_self [1 / 4] [''cval'' \<mapsto> PInt 8] =
     resample toy_env toy_self \<lparr>shape = [1, 2], flat = [1 / 4, 3 / 4], dtype = ''float32''\<rparr>
       PNone PNone (PInt 8)"
    using transform_refines_resample[of toy_env toy_self "[1 / 4]" "[''cval'' \<mapsto> PInt 8]"]
    by (simp only: g k sum.case)
  have b: "fst (transform toy_env toy_self [1 / 4] [''cval'' \<mapsto> PInt 8]) =
     Inr \<lparr>shape = [2], flat = [5, 9], dtype = ''float32''\<rparr>"
    by (simp only: a) code_simp
  from a b show ?thesis by (rule conjI)
qed


subsection \<open>The dtype of the result\<close>

text \<open>
  Claim C6. Whatever the dtype of the wrapped image, the array that
  \<^verbatim>\<open>sample\<close>, \<^verbatim>\<open>resample\<close> or \<^verbatim>\<open>transform\<close> returns has the
  configured dtype \<^verbatim>\<open>DTYPE\<close>.
\<close>

theorem output_dtype:
  "(fst (sample env self points mode order cval) = Inr r \<longrightarrow> dtype r = DTYPE env)
   \<and> (fst (resample env self g mode order cval) = Inr r \<longrightarrow> dtype r = DTYPE env)
   \<and> (fst (transform env self transforms kwargs) = Inr r \<longrightarrow> dtype r = DTYPE env)"
proof (intro conjI impI)
  assume "fst (sample env self points mode order cval) = Inr r"
  then show "dtype r = DTYPE env" by (rule sample_dtype)
next
  assume "fst (resample env self g mode order cval) = Inr r"
  then show "dtype r = DTYPE env" by (rule resample_dtype)
next
  assume "fst (transform env self transforms kwargs) = Inr r"
  then show "dtype r = DTYPE env" by (rule transform_dtype)
qed

text \<open>
  An instance of C6: an image of dtype float64 under the configured dtype float32; the
  three methods return float32 arrays.
\<close>

theorem output_dtype_witness:
  "dtype (image_nd (toy_self\<lparr>image_nd := toy_image\<rparr>)) = ''float64''
   \<and> DTYPE toy_env = ''float32''
   \<and> fst (sample toy_env (toy_self\<lparr>image_nd := toy_image\<rparr>) toy_points PNone PNone PNone) =
       Inr \<lparr>shape = [2], flat = [5 / 2, 10], dtype = ''float32''\<rparr>
   \<and> fst (resample toy_env (toy_self\<lparr>image_nd := toy_image\<rparr>) (grid toy_self) PNone PNone PNone) =
       Inr \<lparr>shape = [2], flat = [0, 10], dtype = ''float32''\<rparr>
   \<and> fst (transform toy_env (toy_self\<lparr>image_nd := toy_image\<rparr>) [] Map.empty) =
       Inr \<lparr>shape = [2], flat = [0, 10], dtype = ''float32''\<rparr>
   \<and> dtype \<lparr>shape = [2], flat = [5 / 2, 10 :: rat], dtype = ''float32''\<rparr> = DTYPE toy_env
   \<and> dtype \<lparr>shape = [2], flat = [0, 10 :: rat], dtype = ''float32''\<rparr> = DTYPE toy_env"
proof -
  let ?s = "toy_self\<lparr>image_nd := toy_image\<rparr>"
  have i: "dtype (image_nd ?s) = ''float64''" by code_simp
  have d: "DTYPE toy_env = ''float32''" by code_simp
  have a: "fst (sample toy_env ?s toy_points PNone PNone PNone) =
       Inr \<lparr>shape = [2], flat = [5 / 2, 10], dtype = ''float32''\<rparr>" by code_simp
  have b: "fst (resample toy_env ?s (grid toy_self) PNone PNone PNone) =
       Inr \<lparr>shape = [2], flat = [0, 10], dtype = ''float32''\<rparr>" by code_simp
  have c: "fst (transform toy_env ?s [] Map.empty) =
       Inr \<lparr>shape = [2], flat = [0, 10], dtype = ''float32''\<rparr>" by code_simp
  have e: "dtype \<lparr>shape = [2], flat = [5 / 2, 10 :: rat], dtype = ''float32''\<rparr> = DTYPE toy_env"
    using output_dtype[of toy_env ?s toy_points PNone PNone PNone
                         "\<lparr>shape = [2], flat = [5 / 2, 10], dtype = ''float32''\<rparr>"] a
    by (simp only: simp_thms)
  have f: "dtype \<lparr>shape = [2], flat = [0, 10 :: rat], dtype = ''float32''\<rparr> = DTYPE toy_env"
    using output_dtype[of toy_env ?s toy_points PNone PNone PNone
                         "\<lparr>shape = [2], flat = [0, 10], dtype = ''float32''\<rparr>"
                         "grid toy_self" "[]" Map.empty] b c
    by (simp only: simp_thms)
  from i d a b c e f show ?thesis by (intro conjI)
qed

subsection \<open>Resolution of the configuration\<close>

text \<open>
  Claim C1. In every call of \<^verbatim>\<open>sample\<close>, \<^verbatim>\<open>resample\<close> or
  \<^verbatim>\<open>transform\<close> each of \<^verbatim>\<open>mode\<close>, \<^verbatim>\<open>order\<close> and
  \<^verbatim>\<open>cval\<close> takes the per-call override when it is truthy and the instance default
  otherwise, and that effective value is what the kernel is called with:
  \<^verbatim>\<open>sample\<close> reshapes and transposes the points, calls the kernel on the image and
  these coordinates with the three effective values, and reshapes and casts what the
  kernel returns; \<^verbatim>\<open>resample\<close> and \<^verbatim>\<open>transform\<close> do the same on the
  coordinates of the rescaled grid. So the call returns what a call without overrides
  returns on an instance whose defaults are these effective values. A falsy override
  (\<^verbatim>\<open>order=0\<close>, \<^verbatim>\<open>cval=0\<close>, \<^verbatim>\<open>mode=None\<close>,
  \<^verbatim>\<open>mode=''\<close>) cannot be told from an override that was not given: replacing it
  by None, or leaving the keyword out, changes nothing.
\<close>

theorem override_resolution:
  "sample env self points mode order cval =
     (case reshape points [int (ndim (image_nd self)), - 1] of
        Inl e \<Rightarrow> (Inl e, self)
      | Inr reshaped \<Rightarrow>
          (case map_coordinates env (image_nd self) (np_transpose reshaped)
                  (effective mode (default_mode self))
                  (effective order (default_order self))
                  (effective cval (default_cval self)) of
             Inl e \<Rightarrow> (Inl e, self)
           | Inr sample_gpu \<Rightarrow>
               (case reshape sample_gpu (map int (shape (image_nd self))) of
                  Inl e \<Rightarrow> (Inl e, self)
                | Inr smp \<Rightarrow> (Inr (astype (cast_elem env) smp (DTYPE env)), self))))
   \<and> resample env self g mode order cval =
     (case Grid_scaled_to env g (shape (image_nd self)) of
        Inl e \<Rightarrow> (Inl e, self)
      | Inr rescaled_grid \<Rightarrow>
          (case reshape (Grid_grid env rescaled_grid) [int (ndim (image_nd self)), - 1] of
             Inl e \<Rightarrow> (Inl e, self)
           | Inr reshaped \<Rightarrow>
               (case map_coordinates env (image_nd self) (np_transpose reshaped)
                       (effective mode (default_mode self))
                       (effective order (default_order self))
                       (effective cval (default_cval self)) of
                  Inl e \<Rightarrow> (Inl e, self)
                | Inr sample_gpu \<Rightarrow>
                    (case reshape sample_gpu (map int (shape (image_nd self))) of
                       Inl e \<Rightarrow> (Inl e, self)
                     | Inr smp \<Rightarrow> (Inr (astype (cast_elem env) smp (DTYPE env)), self)))))
   \<and> transform env self transforms kwargs =
     (case Grid_transform env (grid self) transforms of
        Inl e \<Rightarrow> (Inl e, self)
      | Inr transformed_grid \<Rightarrow>
          (case Grid_scaled_to env transformed_grid (shape (image_nd self)) of
             Inl e \<Rightarrow> (Inl e, self)
           | Inr rescaled_grid \<Rightarrow>
               (case reshape (Grid_grid env rescaled_grid) [int (ndim (image_nd self)), - 1] of
                  Inl e \<Rightarrow> (Inl e, self)
                | Inr reshaped \<Rightarrow>
                    (case map_coordinates env (image_nd self) (np_transpose reshaped)
                            (effective (kwarg kwargs ''mode'') (default_mode self))
                            (effective (kwarg kwargs ''order'') (default_order self))
                            (effective (kwarg kwargs ''cval'') (default_cval self)) of
                       Inl e \<Rightarrow> (Inl e, self)
                     | Inr sample_gpu \<Rightarrow>
                         (case reshape sample_gpu (map int (shape (image_nd self))) of
                            Inl e \<Rightarrow> (Inl e, self)
                          | Inr smp \<Rightarrow> (Inr (astype (cast_elem env) smp (DTYPE env)), self))))))
   \<and> fst (sample env self points mode order cval) =
     fst (sample env
            (with_defaults self (effective mode (default_mode self))
               (effective order (default_order self)) (effective cval (default_cval self)))
            points PNone PNone PNone)
   \<and> fst (resample env self g mode order cval) =
     fst (resample env
            (with_defaults self (effective mode (default_mode self))
               (effective order (default_order self)) (effective cval (default_cval self)))
            g PNone PNone PNone)
   \<and> fst (transform env self transforms kwargs) =
     fst (transform env
            (with_defaults self (effective (kwarg kwargs ''mode'') (default_mode self))
               (effective (kwarg kwargs ''order'') (default_order self))
               (effective (kwarg kwargs ''cval'') (default_cval self)))
            transforms Map.empty)
   \<and> sample env self points mode order cval =
     sample env self points (effective mode PNone) (effective order PNone) (effective cval PNone)
   \<and> resample env self g mode order cval =
     resample env self g (effective mode PNone) (effective order PNone) (effective cval PNone)
   \<and> transform env self transforms kwargs = transform env self transforms (without_falsy kwargs)"
proof (intro conjI)
  show "sample env self points mode order cval =
     (case reshape points [int (ndim (image_nd self)), - 1] of
        Inl e \<Rightarrow> (Inl e, self)
      | Inr reshaped \<Rightarrow>
          (case map_coordinates env (image_nd self) (np_transpose reshaped)
                  (effective mode (default_mode self))
                  (effective order (default_order self))
                  (effective cval (default_cval self)) of
             Inl e \<Rightarrow> (Inl e, self)
           | Inr sample_gpu \<Rightarrow>
               (case reshape sample_gpu (map int (shape (image_nd self))) of
                  Inl e \<Rightarrow> (Inl e, self)
                | Inr smp \<Rightarrow> (Inr (astype (cast_elem env) smp (DTYPE env)), self))))"
    by (rule sample_unfold)
  show "resample env self g mode order cval =
     (case Grid_scaled_to env g (shape (image_nd self)) of
        Inl e \<Rightarrow> (Inl e, self)
      | Inr rescaled_grid \<Rightarrow>
          (case reshape (Grid_grid env rescaled_grid) [int (ndim (image_nd self)), - 1] of
             Inl e \<Rightarrow> (Inl e, self)
           | Inr reshaped \<Rightarrow>
               (case map_coordinates env (image_nd self) (np_transpose reshaped)
                       (effective mode (default_mode self))
                       (effective order (default_order self))
                       (effective cval (default_cval self)) of
                  Inl e \<Rightarrow> (Inl e, self)
                | Inr sample_gpu \<Rightarrow>
                    (case reshape sample_gpu (map int (shape (image_nd self))) of
                       Inl e \<Rightarrow> (Inl e, self)
                     | Inr smp \<Rightarrow> (Inr (astype (cast_elem env) smp (DTYPE env)), self)))))"
    by (simp only: resample_eq_sample sample_unfold)
  show "transform env self transforms kwargs =
     (case Grid_transform env (grid self) transforms of
        Inl e \<Rightarrow> (Inl e, self)
      | Inr transformed_grid \<Rightarrow>
          (case Grid_scaled_to env transformed_grid (shape (image_nd self)) of
             Inl e \<Rightarrow> (Inl e, self)
           | Inr rescaled_grid \<Rightarrow>
               (case reshape (Grid_grid env rescaled_grid) [int (ndim (image_nd self)), - 1] of
                  Inl e \<Rightarrow> (Inl e, self)
                | Inr reshaped \<Rightarrow>
                    (case map_coordinates env (image_nd self) (np_transpose reshaped)
                            (effective (kwarg kwargs ''mode'') (default_mode self))
                            (effective (kwarg kwargs ''order'') (default_order self))
                            (effective (kwarg kwargs ''cval'') (default_cval self)) of
                       Inl e \<Rightarrow> (Inl e, self)
                     | Inr sample_gpu \<Rightarrow>
                         (case reshape sample_gpu (map int (shape (image_nd self))) of
                            Inl e \<Rightarrow> (Inl e, self)
                          | Inr smp \<Rightarrow> (Inr (astype (cast_elem env) smp (DTYPE env)), self))))))"
    by (simp only: transform_eq_resample resample_eq_sample sample_unfold)
  show "fst (sample env self points mode order cval) =
     fst (sample env
            (with_defaults self (effective mode (default_mode self))
               (effective order (default_order self)) (effective cval (default_cval self)))
            points PNone PNone PNone)"
    by (rule sample_depends[symmetric]) (simp_all only: with_defaults_simps effective_None)
  show "fst (resample env self g mode order cval) =
     fst (resample env
            (with_defaults self (effective mode (default_mode self))
               (effective order (default_order self)) (effective cval (default_cval self)))
            g PNone PNone PNone)"
    by (rule resample_depends[symmetric]) (simp_all only: with_defaults_simps effective_None)
  show "fst (transform env self transforms kwargs) =
     fst (transform env
            (with_defaults self (effective (kwarg kwargs ''mode'') (default_mode self))
               (effective (kwarg kwargs ''order'') (default_order self))
               (effective (kwarg kwargs ''cval'') (default_cval self)))
            transforms Map.empty)"
    by (rule transform_depends[symmetric])
       (simp_all only: with_defaults_simps effective_None kwarg_empty)
  show "sample env self points mode order cval =
     sample env self points (effective mode PNone) (effective order PNone) (effective cval PNone)"
    by (rule outcome_eqI[OF sample_depends[symmetric] sample_snd sample_snd])
       (simp_all only: effective_drop)
  show "resample env self g mode order cval =
     resample env self g (effective mode PNone) (effective order PNone) (effective cval PNone)"
    by (rule outcome_eqI[OF resample_depends[symmetric] resample_snd resample_snd])
       (simp_all only: effective_drop)
  show "transform env self transforms kwargs = transform env self transforms (without_falsy kwargs)"
    by (rule outcome_eqI[OF transform_depends[symmetric] transform_snd transform_snd])
       (simp_all only: kwarg_without_falsy)
qed

text \<open>
  Instances of C1: with \<^verbatim>\<open>mode=''\<close>, \<^verbatim>\<open>order=0\<close> and
  \<^verbatim>\<open>cval=8\<close> the kernel is called with the default mode, the default order 1 and
  the override 8; the falsy overrides \<^verbatim>\<open>mode=''\<close>, \<^verbatim>\<open>order=0\<close>,
  \<^verbatim>\<open>cval=0\<close> give the result of the defaults (order 1); a truthy override
  \<^verbatim>\<open>order=1\<close> wins over the default 0; the keyword \<^verbatim>\<open>order=0\<close> of
  \<^verbatim>\<open>transform\<close> is as good as absent.
\<close>

theorem override_resolution_witness:
  "sample toy_env toy_self toy_points (PStr '''') (PInt 0) (PInt 8) =
     (case map_coordinates toy_env (image_nd toy_self)
             \<lparr>shape = [2, 1], flat = [1 / 4, 1], dtype = ''float64''\<rparr>
             (PStr ''constant'') (PInt 1) (PInt 8) of
        Inl e \<Rightarrow> (Inl e, toy_self)
      | Inr sample_gpu \<Rightarrow>
          (case reshape sample_gpu (map int (shape (image_nd toy_self))) of
             Inl e \<Rightarrow> (Inl e, toy_self)
           | Inr smp \<Rightarrow> (Inr (astype (cast_elem toy_env) smp (DTYPE toy_env)), toy_self)))
   \<and> sample toy_env toy_self toy_points (PStr '''') (PInt 0) (PInt 0) =
     sample toy_env toy_self toy_points PNone PNone PNone
   \<and> fst (sample toy_env toy_self toy_points PNone PNone PNone) =
       Inr \<lparr>shape = [2], flat = [5 / 2, 10], dtype = ''float32''\<rparr>
   \<and> fst (sample toy_env (toy_self\<lparr>default_order := PInt 0\<rparr>) toy_points PNone (PInt 1) PNone) =
     fst (sample toy_env toy_self toy_points PNone PNone PNone)
   \<and> transform toy_env toy_self [1 / 4] [''order'' \<mapsto> PInt 0] =
     transform toy_env toy_self [1 / 4] Map.empty"
proof -
  have e: "effective (PStr '''') PNone = PNone" "effective (PInt 0) PNone = PNone"
    by (simp_all add: effective_def)
  have r: "reshape toy_points [int (ndim (image_nd toy_self)), - 1] =
             Inr \<lparr>shape = [1, 2], flat = [1 / 4, 1], dtype = ''float64''\<rparr>"
    by code_simp
  have t: "np_transpose \<lparr>shape = [1, 2], flat = [1 / 4, 1 :: rat], dtype = ''float64''\<rparr> =
             \<lparr>shape = [2, 1], flat = [1 / 4, 1], dtype = ''float64''\<rparr>"
    by code_simp
  have f: "effective (PStr '''') (default_mode toy_self) = PStr ''constant''"
    "effective (PInt 0) (default_order toy_self) = PInt 1"
    "effective (PInt 8) (default_cval toy_self) = PInt 8"
    by code_simp+
  have z: "sample toy_env toy_self toy_points (PStr '''') (PInt 0) (PInt 8) =
     (case map_coordinates toy_env (image_nd toy_self)
             \<lparr>shape = [2, 1], flat = [1 / 4, 1], dtype = ''float64''\<rparr>
             (PStr ''constant'') (PInt 1) (PInt 8) of
        Inl e \<Rightarrow> (Inl e, toy_self)
      | Inr sample_gpu \<Rightarrow>
          (case reshape sample_gpu (map int (shape (image_nd toy_self))) of
             Inl e \<Rightarrow> (Inl e, toy_self)
           | Inr smp \<Rightarrow> (Inr (astype (cast_elem toy_env) smp (DTYPE toy_env)), toy_self)))"
    using override_resolution[of toy_env toy_self toy_points "PStr ''''" "PInt 0" "PInt 8",
            THEN conjunct1]
    by (simp only: r t f sum.case)
  have a: "sample toy_env toy_self toy_points (PStr '''') (PInt 0) (PInt 0) =
     sample toy_env toy_self toy_points PNone PNone PNone"
    using override_resolution[of toy_env toy_self toy_points "PStr ''''" "PInt 0" "PInt 0",
            THEN conjunct2, THEN conjunct2, THEN conjunct2,
            THEN conjunct2, THEN conjunct2, THEN conjunct2, THEN conjunct1]
    by (simp only: e)
  have b: "fst (sample toy_env toy_self toy_points PNone PNone PNone) =
       Inr \<lparr>shape = [2], flat = [5 / 2, 10], dtype = ''float32''\<rparr>"
    by code_simp
  have w: "with_defaults (toy_self\<lparr>default_order := PInt 0\<rparr>)
             (effective PNone (default_mode (toy_self\<lparr>default_order := PInt 0\<rparr>)))
             (effective (PInt 1) (default_order (toy_self\<lparr>default_order := PInt 0\<rparr>)))
             (effective PNone (default_cval (toy_self\<lparr>default_order := PInt 0\<rparr>))) = toy_self"
    by code_simp
  have c: "fst (sample toy_env (toy_self\<lparr>default_order := PInt 0\<rparr>) toy_points PNone (PInt 1) PNone) =
     fst (sample toy_env toy_self toy_points PNone PNone PNone)"
    using override_resolution[of toy_env "toy_self\<lparr>default_order := PInt 0\<rparr>" toy_points
                                 PNone "PInt 1" PNone,
            THEN conjunct2, THEN conjunct2, THEN conjunct2, THEN conjunct1]
    by (simp only: w)
  have k: "without_falsy [''order'' \<mapsto> PInt 0] = Map.empty"
    by (rule ext) (simp add: without_falsy_def)
  have d: "transform toy_env toy_self [1 / 4] [''order'' \<mapsto> PInt 0] =
     transform toy_env toy_self [1 / 4] Map.empty"
    using override_resolution[of toy_env toy_self _ _ _ _ _ "[1 / 4]" "[''order'' \<mapsto> PInt 0]",
            THEN conjunct2, THEN conjunct2, THEN conjunct2, THEN conjunct2,
            THEN conjunct2, THEN conjunct2, THEN conjunct2, THEN conjunct2]
    by (simp only: k)
  from z a b c d show ?thesis by (intro conjI)
qed

subsection \<open>Keywords of transform\<close>

text \<open>
  Claim C9. \<^verbatim>\<open>transform\<close> reads the keywords \<^verbatim>\<open>mode\<close>,
  \<^verbatim>\<open>order\<close> and \<^verbatim>\<open>cval\<close> only: two keyword dictionaries that agree on
  these three give the same outcome, so any other keyword (a misspelled
  \<^verbatim>\<open>oder=0\<close>) is dropped and raises nothing.
\<close>

theorem transform_ignores_other_keywords:
  assumes "kwargs' ''mode'' = kwargs ''mode''"
    and "kwargs' ''order'' = kwargs ''order''"
    and "kwargs' ''cval'' = kwargs ''cval''"
  shows "transform env self transforms kwargs' = transform env self transforms kwargs"
proof -
  have k: "kwarg kwargs' ''mode'' = kwarg kwargs ''mode''"
    "kwarg kwargs' ''order'' = kwarg kwargs ''order''"
    "kwarg kwargs' ''cval'' = kwarg kwargs ''cval''"
    by (simp_all only: kwarg_def assms)
  show ?thesis by (simp only: transform_eq_resample k)
qed

text \<open>
  An instance of C9: the keyword \<^verbatim>\<open>oder=0\<close> changes nothing, and the call returns
  an array.
\<close>

theorem transform_ignores_other_keywords_witness:
  "transform toy_env toy_self [1 / 4] [''oder'' \<mapsto> PInt 0] =
     transform toy_env toy_self [1 / 4] Map.empty
   \<and> fst (transform toy_env toy_self [1 / 4] [''oder'' \<mapsto> PInt 0]) =
     Inr \<lparr>shape = [2], flat = [5, 5], dtype = ''float32''\<rparr>"
proof -
  have a: "transform toy_env toy_self [1 / 4] [''oder'' \<mapsto> PInt 0] =
     transform toy_env toy_self [1 / 4] Map.empty"
    by (rule transform_ignores_other_keywords) simp_all
  have b: "fst (transform toy_env toy_self [1 / 4] Map.empty) =
     Inr \<lparr>shape = [2], flat = [5, 5], dtype = ''float32''\<rparr>"
    by code_simp
  from a b show ?thesis by (simp only: simp_thms)
qed

subsection \<open>No mutation\<close>

text \<open>
  Claim C8. No call of \<^verbatim>\<open>sample\<close>, \<^verbatim>\<open>resample\<close> or
  \<^verbatim>\<open>transform\<close> changes the instance: image, grid and the three defaults are
  after the call what they were before it. The result of \<^verbatim>\<open>sample\<close> and
  \<^verbatim>\<open>resample\<close> is a function of the image, the points or the grid, and the
  effective configuration; that of \<^verbatim>\<open>transform\<close> of the image, the instance's
  grid, the transforms and the effective configuration. (The methods of the Grid class
  are functions here, as they return new grids.)
\<close>

theorem no_mutation:
  "snd (sample env self points mode order cval) = self
   \<and> snd (resample env self g mode order cval) = self
   \<and> snd (transform env self transforms kwargs) = self
   \<and> (image_nd self' = image_nd self
        \<and> effective mode' (default_mode self') = effective mode (default_mode self)
        \<and> effective order' (default_order self') = effective order (default_order self)
        \<and> effective cval' (default_cval self') = effective cval (default_cval self)
      \<longrightarrow> fst (sample env self' points mode' order' cval') =
            fst (sample env self points mode order cval)
          \<and> fst (resample env self' g mode' order' cval') =
            fst (resample env self g mode order cval))
   \<and> (image_nd self' = image_nd self \<and> grid self' = grid self
        \<and> effective (kwarg kwargs' ''mode'') (default_mode self') =
            effective (kwarg kwargs ''mode'') (default_mode self)
        \<and> effective (kwarg kwargs' ''order'') (default_order self') =
            effective (kwarg kwargs ''order'') (default_order self)
        \<and> effective (kwarg kwargs' ''cval'') (default_cval self') =
            effective (kwarg kwargs ''cval'') (default_cval self)
      \<longrightarrow> fst (transform env self' transforms kwargs') =
            fst (transform env self transforms kwargs))"
proof (intro conjI impI)
  show "snd (sample env self points mode order cval) = self" by (rule sample_snd)
  show "snd (resample env self g mode order cval) = self" by (rule resample_snd)
  show "snd (transform env self transforms kwargs) = self" by (rule transform_snd)
next
  assume h: "image_nd self' = image_nd self
        \<and> effective mode' (default_mode self') = effective mode (default_mode self)
        \<and> effective order' (default_order self') = effective order (default_order self)
        \<and> effective cval' (default_cval self') = effective cval (default_cval self)"
  show "fst (sample env self' points mode' order' cval') =
            fst (sample env self points mode order cval)"
    by (rule sample_depends) (simp_all only: h)
  show "fst (resample env self' g mode' order' cval') =
            fst (resample env self g mode order cval)"
    by (rule resample_depends) (simp_all only: h)
next
  assume h: "image_nd self' = image_nd self \<and> grid self' = grid self
        \<and> effective (kwarg kwargs' ''mode'') (default_mode self') =
            effective (kwarg kwargs ''mode'') (default_mode self)
        \<and> effective (kwarg kwargs' ''order'') (default_order self') =
            effective (kwarg kwargs ''order'') (default_order self)
        \<and> effective (kwarg kwargs' ''cval'') (default_cval self') =
            effective (kwarg kwargs ''cval'') (default_cval self)"
  show "fst (transform env self' transforms kwargs') =
            fst (transform env self transforms kwargs)"
    by (rule transform_depends) (simp_all only: h)
qed

text \<open>
  Instances of C8: the instance after a call of \<^verbatim>\<open>sample\<close> and of
  \<^verbatim>\<open>transform\<close>; two instances with the same image and different defaults and
  grids, called with overrides that resolve to the same configuration.
\<close>

theorem no_mutation_witness:
  "snd (sample toy_env toy_self toy_points PNone (PInt 0) PNone) = toy_self
   \<and> snd (transform toy_env toy_self [1 / 4] [''order'' \<mapsto> PInt 1]) = toy_self
   \<and> fst (sample toy_env (toy_self\<lparr>default_order := PInt 0, grid := toy_points\<rparr>) toy_points
            PNone (PInt 1) PNone) =
     fst (sample toy_env toy_self toy_points PNone PNone PNone)
   \<and> fst (transform toy_env (toy_self\<lparr>default_order := PInt 0\<rparr>) [1 / 4]
            [''order'' \<mapsto> PInt 1]) =
     fst (transform toy_env toy_self [1 / 4] Map.empty)
   \<and> fst (sample toy_env toy_self toy_points PNone PNone PNone) =
       Inr \<lparr>shape = [2], flat = [5 / 2, 10], dtype = ''float32''\<rparr>"
proof -
  have a: "snd (sample toy_env toy_self toy_points PNone (PInt 0) PNone) = toy_self"
    by (rule no_mutation[THEN conjunct1])
  have b: "snd (transform toy_env toy_self [1 / 4] [''order'' \<mapsto> PInt 1]) = toy_self"
    by (rule no_mutation[THEN conjunct2, THEN conjunct2, THEN conjunct1])
  have c: "fst (sample toy_env (toy_self\<lparr>default_order := PInt 0, grid := toy_points\<rparr>)
                  toy_points PNone (PInt 1) PNone) =
     fst (sample toy_env toy_self toy_points PNone PNone PNone)"
    by (rule no_mutation[THEN conjunct2, THEN conjunct2, THEN conjunct2, THEN conjunct1,
                         THEN mp, THEN conjunct1])
       code_simp
  have d: "fst (transform toy_env (toy_self\<lparr>default_order := PInt 0\<rparr>) [1 / 4]
            [''order'' \<mapsto> PInt 1]) =
     fst (transform toy_env toy_self [1 / 4] Map.empty)"
    by (rule no_mutation[THEN conjunct2, THEN conjunct2, THEN conjunct2, THEN conjunct2,
                         THEN mp])
       code_simp
  have e: "fst (sample toy_env toy_self toy_points PNone PNone PNone) =
       Inr \<lparr>shape = [2], flat = [5 / 2, 10], dtype = ''float32''\<rparr>"
    by code_simp
  from a b c d e show ?thesis by (intro conjI)
qed

subsection \<open>Construction\<close>

text \<open>
  Claim C7. The constructor looks at none of \<^verbatim>\<open>mode\<close>, \<^verbatim>\<open>order\<close> and
  \<^verbatim>\<open>cval\<close>: whatever they are, it raises only what the base class constructor
  raises on the image, and otherwise stores the three values unchanged as the defaults.
  An invalid value shows when an operation runs the kernel: what the kernel raises on
  the effective configuration is what \<^verbatim>\<open>sample\<close> raises, and an exception of
  \<^verbatim>\<open>sample\<close> is that of reshaping the points (which no configuration value
  enters), that of the kernel, or that of reshaping what the kernel returned.
\<close>

theorem construction_unvalidated:
  "(Interpolator_init env img = Inr (base_image, base_grid) \<longrightarrow>
      init env img mode order cval =
        Inr \<lparr>image_nd = base_image, grid = base_grid,
             default_mode = mode, default_order = order, default_cval = cval\<rparr>)
   \<and> (Interpolator_init env img = Inl e \<longrightarrow> init env img mode order cval = Inl e)
   \<and> (reshape points [int (ndim (image_nd self)), - 1] = Inr reshaped
        \<and> map_coordinates env (image_nd self) (np_transpose reshaped)
             (effective mode (default_mode self)) (effective order (default_order self))
             (effective cval (default_cval self)) = Inl e
      \<longrightarrow> sample env self points mode order cval = (Inl e, self))
   \<and> (fst (sample env self points mode order cval) = Inl e \<longrightarrow>
        reshape points [int (ndim (image_nd self)), - 1] = Inl e
        \<or> (\<exists>reshaped. reshape points [int (ndim (image_nd self)), - 1] = Inr reshaped
              \<and> (map_coordinates env (image_nd self) (np_transpose reshaped)
                    (effective mode (default_mode self)) (effective order (default_order self))
                    (effective cval (default_cval self)) = Inl e
                  \<or> (\<exists>sample_gpu.
                        map_coordinates env (image_nd self) (np_transpose reshaped)
                          (effective mode (default_mode self))
                          (effective order (default_order self))
                          (effective cval (default_cval self)) = Inr sample_gpu
                        \<and> reshape sample_gpu (map int (shape (image_nd self))) = Inl e))))"
proof (intro conjI impI)
  assume "Interpolator_init env img = Inr (base_image, base_grid)"
  then show "init env img mode order cval =
        Inr \<lparr>image_nd = base_image, grid = base_grid,
             default_mode = mode, default_order = order, default_cval = cval\<rparr>"
    by (simp only: init_def sum.case prod.case)
next
  assume "Interpolator_init env img = Inl e"
  then show "init env img mode order cval = Inl e"
    by (simp only: init_def sum.case)
next
  assume h: "reshape points [int (ndim (image_nd self)), - 1] = Inr reshaped
        \<and> map_coordinates env (image_nd self) (np_transpose reshaped)
             (effective mode (default_mode self)) (effective order (default_order self))
             (effective cval (default_cval self)) = Inl e"
  show "sample env self points mode order cval = (Inl e, self)"
    by (simp only: sample_unfold h[THEN conjunct1] h[THEN conjunct2] sum.case)
next
  assume a: "fst (sample env self points mode order cval) = Inl e"
  show "reshape points [int (ndim (image_nd self)), - 1] = Inl e
        \<or> (\<exists>reshaped. reshape points [int (ndim (image_nd self)), - 1] = Inr reshaped
              \<and> (map_coordinates env (image_nd self) (np_transpose reshaped)
                    (effective mode (default_mode self)) (effective order (default_order self))
                    (effective cval (default_cval self)) = Inl e
                  \<or> (\<exists>sample_gpu.
                        map_coordinates env (image_nd self) (np_transpose reshaped)
                          (effective mode (default_mode self))
                          (effective order (default_order self))
                          (effective cval (default_cval self)) = Inr sample_gpu
                        \<and> reshape sample_gpu (map int (shape (image_nd self))) = Inl e)))"
  proof (cases "reshape points [int (ndim (image_nd self)), - 1]")
    case (Inl e')
    with a have "e' = e" by (simp only: sample_fst_unfold sum.case sum.inject)
    with Inl show ?thesis by (intro disjI1) (simp only:)
  next
    case r1: (Inr reshaped)
    show ?thesis
    proof (cases "map_coordinates env (image_nd self) (np_transpose reshaped)
                    (effective mode (default_mode self)) (effective order (default_order self))
                    (effective cval (default_cval self))")
      case (Inl e')
      with a r1 have "e' = e" by (simp only: sample_fst_unfold sum.case sum.inject)
      with Inl have k: "map_coordinates env (image_nd self) (np_transpose reshaped)
                    (effective mode (default_mode self)) (effective order (default_order self))
                    (effective cval (default_cval self)) = Inl e" by (simp only:)
      show ?thesis
        by (rule disjI2, rule exI[of _ reshaped], rule conjI, rule r1, rule disjI1, rule k)
    next
      case r2: (Inr sample_gpu)
      show ?thesis
      proof (cases "reshape sample_gpu (map int (shape (image_nd self)))")
        case (Inl e')
        with a r1 r2 have "e' = e" by (simp only: sample_fst_unfold sum.case sum.inject)
        with Inl have k: "reshape sample_gpu (map int (shape (image_nd self))) = Inl e"
          by (simp only:)
        show ?thesis
          by (rule disjI2, rule exI[of _ reshaped], rule conjI, rule r1, rule disjI2,
              rule exI[of _ sample_gpu], rule conjI, rule r2, rule k)
      next
        case (Inr smp)
        with a r1 r2 have False by (simp only: sample_fst_unfold sum.case sum.distinct)
        then show ?thesis by (rule FalseE)
      qed
    qed
  qed
qed

text \<open>
  An instance of C7: an unknown mode, an unsupported order and a string for
  \<^verbatim>\<open>cval\<close> are accepted and stored by the constructor; the kernel raises on the
  first call of \<^verbatim>\<open>sample\<close>.
\<close>

theorem construction_unvalidated_witness:
  "init toy_env toy_image (PStr ''bogus'') (PInt 7) (PStr ''x'') =
     Inr \<lparr>image_nd = toy_image\<lparr>dtype := ''float32''\<rparr>,
          grid = \<lparr>shape = [1, 2], flat = [0, 1 / 2], dtype = ''float32''\<rparr>,
          default_mode = PStr ''bogus'', default_order = PInt 7, default_cval = PStr ''x''\<rparr>
   \<and> sample toy_env (toy_self\<lparr>default_mode := PStr ''bogus''\<rparr>) toy_points PNone PNone PNone =
       (Inl ValueError, toy_self\<lparr>default_mode := PStr ''bogus''\<rparr>)"
proof -
  have i: "Interpolator_init toy_env toy_image =
             Inr (toy_image\<lparr>dtype := ''float32''\<rparr>,
                  \<lparr>shape = [1, 2], flat = [0, 1 / 2], dtype = ''float32''\<rparr>)"
    by code_simp
  have a: "init toy_env toy_image (PStr ''bogus'') (PInt 7) (PStr ''x'') =
     Inr \<lparr>image_nd = toy_image\<lparr>dtype := ''float32''\<rparr>,
          grid = \<lparr>shape = [1, 2], flat = [0, 1 / 2], dtype = ''float32''\<rparr>,
          default_mode = PStr ''bogus'', default_order = PInt 7, default_cval = PStr ''x''\<rparr>"
    by (rule construction_unvalidated[THEN conjunct1, THEN mp, OF i])
  have b: "sample toy_env (toy_self\<lparr>default_mode := PStr ''bogus''\<rparr>) toy_points PNone PNone PNone =
       (Inl ValueError, toy_self\<lparr>default_mode := PStr ''bogus''\<rparr>)"
    by (rule construction_unvalidated[
               where reshaped = "\<lparr>shape = [1, 2], flat = [1 / 4, 1], dtype = ''float64''\<rparr>",
               THEN conjunct2, THEN conjunct2, THEN conjunct1, THEN mp])
       code_simp
  from a b show ?thesis by (rule conjI)
qed

subsection \<open>Reshaping and transposing\<close>

text \<open>
  What \<^verbatim>\<open>reshape(ndim, -1)\<close> and \<^verbatim>\<open>reshape(image.shape)\<close> return, and the
  transpose of a two-dimensional array, element by element.
\<close>

lemma reshape_unknown_ok:
  assumes "0 < n" and "prod_list (shape a) = n * p"
  shows "reshape a [int n, - 1] = Inr (a\<lparr>shape := [n, p]\<rparr>)"
  using assms by (simp add: reshape_def size_nd_def Let_def)

lemma reshape_unknown_zero: "reshape a [int 0, - 1] = Inl ValueError"
  by (simp add: reshape_def size_nd_def Let_def)

lemma reshape_unknown_not_dvd:
  assumes "\<not> n dvd prod_list (shape a)"
  shows "reshape a [int n, - 1] = Inl ValueError"
  using assms by (simp add: reshape_def size_nd_def Let_def dvd_eq_mod_eq_0)

lemma reshape_known:
  "reshape a (map int shp) =
     (if prod_list (shape a) = prod_list shp then Inr (a\<lparr>shape := shp\<rparr>) else Inl ValueError)"
proof -
  have f1: "filter (\<lambda>d. 0 \<le> d) (map int shp) = map int shp" by (induction shp) simp_all
  have f2: "filter (\<lambda>d. d < 0) (map int shp) = []" by (induction shp) simp_all
  have f3: "map (nat \<circ> int) shp = shp" by (induction shp) simp_all
  show ?thesis by (simp add: reshape_def size_nd_def Let_def f1 f2 f3)
qed

lemma length_concat_blocks:
  "length (concat (map (\<lambda>j. map (f j) [0..<n]) [0..<p])) = p * n"
  by (induction p) simp_all

lemma nth_concat_blocks:
  assumes "j < p" and "i < n"
  shows "concat (map (\<lambda>j. map (f j) [0..<n]) [0..<p]) ! (j * n + i) = f j i"
  using assms
proof (induction p)
  case 0
  then show ?case by simp
next
  case (Suc p)
  show ?case
  proof (cases "j < p")
    case True
    then have "Suc j \<le> p" by simp
    then have "Suc j * n \<le> p * n" by (rule mult_le_mono1)
    with \<open>i < n\<close> have lt: "j * n + i < p * n" by simp
    show ?thesis using Suc.IH[OF True \<open>i < n\<close>] lt
      by (simp add: nth_append length_concat_blocks)
  next
    case False
    with Suc.prems have "j = p" by simp
    then show ?thesis using \<open>i < n\<close>
      by (simp add: nth_append length_concat_blocks)
  qed
qed

lemma all_indices_2d:
  "all_indices [p, n] = concat (map (\<lambda>j. map (\<lambda>i. [j, i]) [0..<n]) [0..<p])"
proof -
  have "all_indices [n] = map (\<lambda>i. [i]) [0..<n]"
    by simp
  then show ?thesis by (simp add: comp_def)
qed

lemma np_transpose_2d_shape: "shape (np_transpose (a\<lparr>shape := [n, p]\<rparr>)) = [p, n]"
  by (simp add: np_transpose_def)

lemma np_transpose_2d_flat:
  "flat (np_transpose (a\<lparr>shape := [n, p]\<rparr>)) =
     concat (map (\<lambda>j. map (\<lambda>i. flat a ! (i * p + j)) [0..<n]) [0..<p])"
  by (simp add: np_transpose_def all_indices_2d map_concat comp_def)

lemma np_transpose_2d_nth:
  assumes "j < p" and "i < n"
  shows "flat (np_transpose (a\<lparr>shape := [n, p]\<rparr>)) ! (j * n + i) = flat a ! (i * p + j)"
  by (simp only: np_transpose_2d_flat nth_concat_blocks[OF assms])

lemma np_transpose_2d_length:
  "length (flat (np_transpose (a\<lparr>shape := [n, p]\<rparr>))) = p * n"
  by (simp only: np_transpose_2d_flat length_concat_blocks)

text \<open>
  \<^verbatim>\<open>sample\<close> once the points are reshaped; any array it returns has the shape of
  the image.
\<close>

lemma sample_accepted:
  assumes n: "0 < ndim (image_nd self)"
    and sz: "prod_list (shape points) = ndim (image_nd self) * p"
  shows "sample env self points mode order cval =
     (case map_coordinates env (image_nd self)
             (np_transpose (points\<lparr>shape := [ndim (image_nd self), p]\<rparr>))
             (effective mode (default_mode self)) (effective order (default_order self))
             (effective cval (default_cval self)) of
        Inl e \<Rightarrow> (Inl e, self)
      | Inr sample_gpu \<Rightarrow>
          if prod_list (shape sample_gpu) = prod_list (shape (image_nd self))
          then (Inr (astype (cast_elem env) (sample_gpu\<lparr>shape := shape (image_nd self)\<rparr>)
                       (DTYPE env)), self)
          else (Inl ValueError, self))"
proof (cases "map_coordinates env (image_nd self)
             (np_transpose (points\<lparr>shape := [ndim (image_nd self), p]\<rparr>))
             (effective mode (default_mode self)) (effective order (default_order self))
             (effective cval (default_cval self))")
  case (Inl e)
  then show ?thesis
    by (simp only: sample_unfold reshape_unknown_ok[OF n sz] sum.case)
next
  case k: (Inr sample_gpu)
  show ?thesis
  proof (cases "prod_list (shape sample_gpu) = prod_list (shape (image_nd self))")
    case True
    have "reshape sample_gpu (map int (shape (image_nd self))) =
            Inr (sample_gpu\<lparr>shape := shape (image_nd self)\<rparr>)"
      by (simp only: reshape_known True simp_thms if_True)
    then show ?thesis
      by (simp only: sample_unfold reshape_unknown_ok[OF n sz] sum.case k True simp_thms if_True)
  next
    case False
    have "reshape sample_gpu (map int (shape (image_nd self))) = Inl ValueError"
      by (simp only: reshape_known False if_False)
    then show ?thesis
      by (simp only: sample_unfold reshape_unknown_ok[OF n sz] sum.case k False if_False)
  qed
qed

lemma sample_rejected:
  assumes "reshape points [int (ndim (image_nd self)), - 1] = Inl e"
  shows "sample env self points mode order cval = (Inl e, self)"
  by (simp only: sample_unfold assms sum.case)

lemma sample_result_shape:
  assumes "fst (sample env self points mode order cval) = Inr r"
  shows "shape r = shape (image_nd self)"
proof (cases "reshape points [int (ndim (image_nd self)), - 1]")
  case (Inl e)
  with assms show ?thesis by (simp only: sample_fst_unfold sum.case) simp
next
  case r1: (Inr reshaped)
  show ?thesis
  proof (cases "map_coordinates env (image_nd self) (np_transpose reshaped)
                  (effective mode (default_mode self)) (effective order (default_order self))
                  (effective cval (default_cval self))")
    case (Inl e)
    with assms r1 show ?thesis by (simp only: sample_fst_unfold sum.case) simp
  next
    case r2: (Inr sample_gpu)
    show ?thesis
    proof (cases "prod_list (shape sample_gpu) = prod_list (shape (image_nd self))")
      case True
      have "reshape sample_gpu (map int (shape (image_nd self))) =
            Inr (sample_gpu\<lparr>shape := shape (image_nd self)\<rparr>)"
        by (simp only: reshape_known True simp_thms if_True)
      with assms r1 r2
      have "r = astype (cast_elem env) (sample_gpu\<lparr>shape := shape (image_nd self)\<rparr>) (DTYPE env)"
        by (simp only: sample_fst_unfold sum.case sum.inject)
      then show ?thesis by (simp add: astype_shape)
    next
      case False
      have "reshape sample_gpu (map int (shape (image_nd self))) = Inl ValueError"
        by (simp only: reshape_known False if_False)
      with assms r1 r2 show ?thesis by (simp only: sample_fst_unfold sum.case) simp
    qed
  qed
qed

lemma effective_zero: "effective (PInt 0) d = effective PNone d"
  by (simp add: effective_def)

subsection \<open>The shape contract of sample\<close>

text \<open>
  Claim C3, as amended. For every points array of shape
  \<^verbatim>\<open>(image.ndim,) + image.shape\<close> over an image of at least one axis,
  \<^verbatim>\<open>sample\<close> passes the kernel a coordinate list of shape
  \<^verbatim>\<open>(num_points, ndims)\<close> with \<^verbatim>\<open>num_points\<close> the size of the image: row
  \<open>j\<close> holds, for each axis \<open>i\<close>, element \<open>j\<close> (in C order) of the
  \<open>i\<close>-th coordinate plane of the points. An exception of the kernel is the exception
  of \<^verbatim>\<open>sample\<close>; when the kernel returns one value per point, \<^verbatim>\<open>sample\<close>
  returns them reshaped to exactly the image's shape and cast to \<^verbatim>\<open>DTYPE\<close>. Any
  array \<^verbatim>\<open>sample\<close> returns has the image's shape.
\<close>

theorem sample_points_of_image_shape:
  fixes env :: "('a, 'd, 'g, 't) collaborators" and self :: "('a, 'd, 'g) interpolator"
    and points :: "('a, 'd) ndarray" and mode order cval :: pyval
  defines "n \<equiv> ndim (image_nd self)" and "p \<equiv> prod_list (shape (image_nd self))"
  defines "coords \<equiv> np_transpose (points\<lparr>shape := [n, p]\<rparr>)"
  defines "kernel_result \<equiv>
     map_coordinates env (image_nd self) coords
       (effective mode (default_mode self)) (effective order (default_order self))
       (effective cval (default_cval self))"
  assumes nonscalar: "shape (image_nd self) \<noteq> []"
    and pts: "shape points = n # shape (image_nd self)"
  shows "shape coords = [p, n]
     \<and> (\<forall>j i. j < p \<and> i < n \<longrightarrow> flat coords ! (j * n + i) = flat points ! (i * p + j))
     \<and> (\<forall>e. kernel_result = Inl e \<longrightarrow>
           sample env self points mode order cval = (Inl e, self))
     \<and> (\<forall>sample_gpu. kernel_result = Inr sample_gpu \<and> prod_list (shape sample_gpu) = p \<longrightarrow>
           sample env self points mode order cval =
             (Inr (astype (cast_elem env) (sample_gpu\<lparr>shape := shape (image_nd self)\<rparr>)
                     (DTYPE env)), self))
     \<and> (\<forall>r. fst (sample env self points mode order cval) = Inr r \<longrightarrow>
           shape r = shape (image_nd self))"
proof -
  have n: "0 < ndim (image_nd self)" using nonscalar by (simp add: ndim_def)
  have sz: "prod_list (shape points) = ndim (image_nd self) * p"
    using pts by (simp add: n_def p_def)
  have kr: "kernel_result =
     map_coordinates env (image_nd self)
       (np_transpose (points\<lparr>shape := [ndim (image_nd self), p]\<rparr>))
       (effective mode (default_mode self)) (effective order (default_order self))
       (effective cval (default_cval self))"
    by (simp only: kernel_result_def coords_def n_def)
  note acc = sample_accepted[OF n sz, of env mode order cval, folded kr]
  have 1: "shape coords = [p, n]"
    by (simp only: coords_def np_transpose_2d_shape)
  have 2: "\<forall>j i. j < p \<and> i < n \<longrightarrow> flat coords ! (j * n + i) = flat points ! (i * p + j)"
    by (simp only: coords_def) (blast intro: np_transpose_2d_nth)
  have 3: "\<forall>e. kernel_result = Inl e \<longrightarrow>
           sample env self points mode order cval = (Inl e, self)"
  proof (intro allI impI)
    fix e assume "kernel_result = Inl e"
    then show "sample env self points mode order cval = (Inl e, self)"
      by (simp only: acc sum.case)
  qed
  have 4: "\<forall>sample_gpu. kernel_result = Inr sample_gpu \<and> prod_list (shape sample_gpu) = p \<longrightarrow>
           sample env self points mode order cval =
             (Inr (astype (cast_elem env) (sample_gpu\<lparr>shape := shape (image_nd self)\<rparr>)
                     (DTYPE env)), self)"
  proof (intro allI impI)
    fix sample_gpu
    assume h: "kernel_result = Inr sample_gpu \<and> prod_list (shape sample_gpu) = p"
    have sizes: "prod_list (shape sample_gpu) = prod_list (shape (image_nd self))"
      using h by (simp only: p_def)
    show "sample env self points mode order cval =
             (Inr (astype (cast_elem env) (sample_gpu\<lparr>shape := shape (image_nd self)\<rparr>)
                     (DTYPE env)), self)"
      by (simp only: acc h[THEN conjunct1] sum.case sizes simp_thms if_True)
  qed
  have 5: "\<forall>r. fst (sample env self points mode order cval) = Inr r \<longrightarrow>
           shape r = shape (image_nd self)"
    by (blast intro: sample_result_shape)
  from 1 2 3 4 5 show ?thesis by (intro conjI)
qed

text \<open>
  An instance of the amended C3: the two points of shape \<^verbatim>\<open>(1, 2)\<close> over the
  two-pixel image.
\<close>

theorem sample_points_of_image_shape_witness:
  "shape (image_nd toy_self) \<noteq> []
   \<and> shape toy_points = ndim (image_nd toy_self) # shape (image_nd toy_self)
   \<and> shape (np_transpose (toy_points\<lparr>shape := [ndim (image_nd toy_self),
                                                prod_list (shape (image_nd toy_self))]\<rparr>)) =
       [prod_list (shape (image_nd toy_self)), ndim (image_nd toy_self)]
   \<and> np_transpose (toy_points\<lparr>shape := [ndim (image_nd toy_self),
                                         prod_list (shape (image_nd toy_self))]\<rparr>) =
       \<lparr>shape = [2, 1], flat = [1 / 4, 1], dtype = ''float64''\<rparr>
   \<and> fst (sample toy_env toy_self toy_points PNone PNone PNone) =
       Inr \<lparr>shape = [2], flat = [5 / 2, 10], dtype = ''float32''\<rparr>
   \<and> shape \<lparr>shape = [2], flat = [5 / 2, 10 :: rat], dtype = ''float32''\<rparr> =
       shape (image_nd toy_self)"
proof -
  have a: "shape (image_nd toy_self) \<noteq> []" by code_simp
  have b: "shape toy_points = ndim (image_nd toy_self) # shape (image_nd toy_self)"
    by code_simp
  note t = sample_points_of_image_shape[OF a b, of toy_env PNone PNone PNone]
  have c: "shape (np_transpose (toy_points\<lparr>shape := [ndim (image_nd toy_self),
                                                prod_list (shape (image_nd toy_self))]\<rparr>)) =
       [prod_list (shape (image_nd toy_self)), ndim (image_nd toy_self)]"
    by (rule t[THEN conjunct1])
  have d: "np_transpose (toy_points\<lparr>shape := [ndim (image_nd toy_self),
                                         prod_list (shape (image_nd toy_self))]\<rparr>) =
       \<lparr>shape = [2, 1], flat = [1 / 4, 1], dtype = ''float64''\<rparr>"
    by code_simp
  have e: "fst (sample toy_env toy_self toy_points PNone PNone PNone) =
       Inr \<lparr>shape = [2], flat = [5 / 2, 10], dtype = ''float32''\<rparr>"
    by code_simp
  have f: "shape \<lparr>shape = [2], flat = [5 / 2, 10 :: rat], dtype = ''float32''\<rparr> =
       shape (image_nd toy_self)"
    by (rule t[THEN conjunct2, THEN conjunct2, THEN conjunct2, THEN conjunct2,
               THEN spec, THEN mp, OF e])
  from a b c d e f show ?thesis by (intro conjI)
qed

text \<open>
  Claim C3 as stated asks only that the non-leading shape of the points equals the
  image's shape. It fails when the leading axis is not \<^verbatim>\<open>image.ndim\<close>: for a
  \<^verbatim>\<open>(3, 3)\<close> image and points of shape \<^verbatim>\<open>(1, 3, 3)\<close>,
  \<^verbatim>\<open>points.reshape(2, -1)\<close> raises ValueError (9 elements do not divide into 2
  rows) before the kernel is called, and no array is returned.
\<close>

theorem sample_points_leading_axis_counterexample:
  "tl (shape \<lparr>shape = [1, 3, 3], flat = [0, 0, 0, 1, 1, 1, 2, 2, 2 :: rat],
              dtype = ''float32''\<rparr>) =
     shape (image_nd (toy_self\<lparr>image_nd :=
              \<lparr>shape = [3, 3], flat = [0, 1, 0, 1, 0, 1, 0, 1, 0], dtype = ''float32''\<rparr>\<rparr>))
   \<and> sample toy_env
         (toy_self\<lparr>image_nd :=
            \<lparr>shape = [3, 3], flat = [0, 1, 0, 1, 0, 1, 0, 1, 0], dtype = ''float32''\<rparr>\<rparr>)
         \<lparr>shape = [1, 3, 3], flat = [0, 0, 0, 1, 1, 1, 2, 2, 2], dtype = ''float32''\<rparr>
         PNone PNone PNone =
       (Inl ValueError,
        toy_self\<lparr>image_nd :=
            \<lparr>shape = [3, 3], flat = [0, 1, 0, 1, 0, 1, 0, 1, 0], dtype = ''float32''\<rparr>\<rparr>)"
  by code_simp

text \<open>
  Claim C10, as amended. \<^verbatim>\<open>sample\<close> takes the number of coordinates per point
  from \<^verbatim>\<open>image.ndim\<close>, not from the points:
  \<^item> for an image of at least one axis, any points array whose size is
    \<^verbatim>\<open>image.ndim\<close> times the size of the image is accepted, whatever its axes: the
    kernel gets \<^verbatim>\<open>(image size, ndim)\<close> coordinates, and one value per point comes
    back in the image's shape;
  \<^item> a points array whose size \<^verbatim>\<open>image.ndim\<close> does not divide raises the
    ValueError of reshape, before the kernel is called;
  \<^item> a points array with another number of points than the image has elements raises
    the ValueError of the second reshape, once the kernel has returned one value per
    point;
  \<^item> for an image without axes (\<^verbatim>\<open>ndim = 0\<close>) every call raises the ValueError of
    \<^verbatim>\<open>reshape(0, -1)\<close>.
\<close>

theorem sample_reshape_contract:
  fixes env :: "('a, 'd, 'g, 't) collaborators" and self :: "('a, 'd, 'g) interpolator"
    and points :: "('a, 'd) ndarray" and mode order cval :: pyval
  defines "n \<equiv> ndim (image_nd self)" and "p \<equiv> prod_list (shape (image_nd self))"
  defines "kernel_result \<equiv> (\<lambda>q.
     map_coordinates env (image_nd self) (np_transpose (points\<lparr>shape := [n, q]\<rparr>))
       (effective mode (default_mode self)) (effective order (default_order self))
       (effective cval (default_cval self)))"
  shows "(0 < n \<and> prod_list (shape points) = n * p \<longrightarrow>
            shape (np_transpose (points\<lparr>shape := [n, p]\<rparr>)) = [p, n]
            \<and> (\<forall>e. kernel_result p = Inl e \<longrightarrow>
                  sample env self points mode order cval = (Inl e, self))
            \<and> (\<forall>sample_gpu. kernel_result p = Inr sample_gpu
                    \<and> prod_list (shape sample_gpu) = p \<longrightarrow>
                  sample env self points mode order cval =
                    (Inr (astype (cast_elem env)
                            (sample_gpu\<lparr>shape := shape (image_nd self)\<rparr>) (DTYPE env)), self)))
     \<and> (\<not> n dvd prod_list (shape points) \<longrightarrow>
            sample env self points mode order cval = (Inl ValueError, self))
     \<and> (\<forall>q sample_gpu. 0 < n \<and> prod_list (shape points) = n * q \<and> q \<noteq> p
            \<and> kernel_result q = Inr sample_gpu \<and> prod_list (shape sample_gpu) = q \<longrightarrow>
            sample env self points mode order cval = (Inl ValueError, self))
     \<and> (n = 0 \<longrightarrow> sample env self points mode order cval = (Inl ValueError, self))"
proof (intro conjI impI allI)
  assume h: "0 < n \<and> prod_list (shape points) = n * p"
  show "shape (np_transpose (points\<lparr>shape := [n, p]\<rparr>)) = [p, n]"
    by (rule np_transpose_2d_shape)
next
  fix e
  assume h: "0 < n \<and> prod_list (shape points) = n * p" and k: "kernel_result p = Inl e"
  have n: "0 < ndim (image_nd self)" and sz: "prod_list (shape points) = ndim (image_nd self) * p"
    using h by (simp_all only: n_def)
  have k': "map_coordinates env (image_nd self)
       (np_transpose (points\<lparr>shape := [ndim (image_nd self), p]\<rparr>))
       (effective mode (default_mode self)) (effective order (default_order self))
       (effective cval (default_cval self)) = Inl e"
    using k by (simp only: kernel_result_def n_def)
  show "sample env self points mode order cval = (Inl e, self)"
    by (simp only: sample_accepted[OF n sz] k' sum.case)
next
  fix sample_gpu
  assume h: "0 < n \<and> prod_list (shape points) = n * p"
    and k: "kernel_result p = Inr sample_gpu \<and> prod_list (shape sample_gpu) = p"
  have n: "0 < ndim (image_nd self)" and sz: "prod_list (shape points) = ndim (image_nd self) * p"
    using h by (simp_all only: n_def)
  have k': "map_coordinates env (image_nd self)
       (np_transpose (points\<lparr>shape := [ndim (image_nd self), p]\<rparr>))
       (effective mode (default_mode self)) (effective order (default_order self))
       (effective cval (default_cval self)) = Inr sample_gpu"
    using k[THEN conjunct1] by (simp only: kernel_result_def n_def)
  have sizes: "prod_list (shape sample_gpu) = prod_list (shape (image_nd self))"
    using k[THEN conjunct2] by (simp only: p_def)
  show "sample env self points mode order cval =
          (Inr (astype (cast_elem env)
                  (sample_gpu\<lparr>shape := shape (image_nd self)\<rparr>) (DTYPE env)), self)"
    by (simp only: sample_accepted[OF n sz] k' sum.case sizes simp_thms if_True)
next
  assume "\<not> n dvd prod_list (shape points)"
  then have "\<not> ndim (image_nd self) dvd prod_list (shape points)" unfolding n_def .
  then have "reshape points [int (ndim (image_nd self)), - 1] = Inl ValueError"
    by (rule reshape_unknown_not_dvd)
  then show "sample env self points mode order cval = (Inl ValueError, self)"
    by (rule sample_rejected)
next
  fix q sample_gpu
  assume h: "0 < n \<and> prod_list (shape points) = n * q \<and> q \<noteq> p
            \<and> kernel_result q = Inr sample_gpu \<and> prod_list (shape sample_gpu) = q"
  have n: "0 < ndim (image_nd self)" and sz: "prod_list (shape points) = ndim (image_nd self) * q"
    using h by (simp_all only: n_def)
  have k': "map_coordinates env (image_nd self)
       (np_transpose (points\<lparr>shape := [ndim (image_nd self), q]\<rparr>))
       (effective mode (default_mode self)) (effective order (default_order self))
       (effective cval (default_cval self)) = Inr sample_gpu"
    using h by (simp only: kernel_result_def n_def)
  have "prod_list (shape sample_gpu) \<noteq> p" using h by simp
  then have sizes: "prod_list (shape sample_gpu) \<noteq> prod_list (shape (image_nd self))"
    unfolding p_def .
  show "sample env self points mode order cval = (Inl ValueError, self)"
    by (simp only: sample_accepted[OF n sz] k' sum.case sizes if_False)
next
  assume "n = 0"
  then have "ndim (image_nd self) = 0" by (simp only: n_def)
  then have "reshape points [int (ndim (image_nd self)), - 1] = Inl ValueError"
    by (simp only: reshape_unknown_zero)
  then show "sample env self points mode order cval = (Inl ValueError, self)"
    by (rule sample_rejected)
qed

text \<open>
  Instances of the amended C10: two points given as a flat array of shape \<^verbatim>\<open>(2,)\<close>
  are accepted; 9 coordinates for a two-dimensional image are refused by the first
  reshape; three points for a two-pixel image are refused by the second.
\<close>

theorem sample_reshape_contract_witness:
  "sample toy_env toy_self \<lparr>shape = [2], flat = [1 / 4, 1], dtype = ''float64''\<rparr>
       PNone PNone PNone =
     (Inr \<lparr>shape = [2], flat = [5 / 2, 10], dtype = ''float32''\<rparr>, toy_self)
   \<and> sample toy_env
         (toy_self\<lparr>image_nd :=
            \<lparr>shape = [3, 3], flat = [0, 1, 0, 1, 0, 1, 0, 1, 0], dtype = ''float32''\<rparr>\<rparr>)
         \<lparr>shape = [1, 3, 3], flat = [0, 0, 0, 1, 1, 1, 2, 2, 2], dtype = ''float32''\<rparr>
         PNone PNone PNone =
       (Inl ValueError,
        toy_self\<lparr>image_nd :=
            \<lparr>shape = [3, 3], flat = [0, 1, 0, 1, 0, 1, 0, 1, 0], dtype = ''float32''\<rparr>\<rparr>)
   \<and> sample toy_env toy_self \<lparr>shape = [1, 3], flat = [0, 1 / 4, 1], dtype = ''float64''\<rparr>
       PNone PNone PNone = (Inl ValueError, toy_self)"
proof -
  let ?flat2 = "\<lparr>shape = [2], flat = [1 / 4, 1 :: rat], dtype = ''float64''\<rparr>"
  let ?g2 = "\<lparr>shape = [2], flat = [5 / 2, 10 :: rat], dtype = ''float32''\<rparr>"
  have ha: "0 < ndim (image_nd toy_self)
            \<and> prod_list (shape ?flat2) =
                ndim (image_nd toy_self) * prod_list (shape (image_nd toy_self))"
    by code_simp
  have ka: "map_coordinates toy_env (image_nd toy_self)
              (np_transpose (?flat2\<lparr>shape := [ndim (image_nd toy_self),
                                              prod_list (shape (image_nd toy_self))]\<rparr>))
              (effective PNone (default_mode toy_self))
              (effective PNone (default_order toy_self))
              (effective PNone (default_cval toy_self)) = Inr ?g2
            \<and> prod_list (shape ?g2) = prod_list (shape (image_nd toy_self))"
    by code_simp
  have ea: "astype (cast_elem toy_env) (?g2\<lparr>shape := shape (image_nd toy_self)\<rparr>)
              (DTYPE toy_env) = ?g2"
    by code_simp
  have a: "sample toy_env toy_self ?flat2 PNone PNone PNone = (Inr ?g2, toy_self)"
    using sample_reshape_contract[where env = toy_env and self = toy_self and points = ?flat2
            and mode = PNone and order = PNone and cval = PNone,
            THEN conjunct1, THEN mp, OF ha, THEN conjunct2, THEN conjunct2, THEN spec,
            THEN mp, OF ka]
    by (simp only: ea)
  let ?s33 = "toy_self\<lparr>image_nd :=
            \<lparr>shape = [3, 3], flat = [0, 1, 0, 1, 0, 1, 0, 1, 0], dtype = ''float32''\<rparr>\<rparr>"
  let ?p133 = "\<lparr>shape = [1, 3, 3], flat = [0, 0, 0, 1, 1, 1, 2, 2, 2 :: rat],
                dtype = ''float32''\<rparr>"
  have hb: "\<not> ndim (image_nd ?s33) dvd prod_list (shape ?p133)"
    by code_simp
  have b: "sample toy_env ?s33 ?p133 PNone PNone PNone = (Inl ValueError, ?s33)"
    by (rule sample_reshape_contract[where env = toy_env and self = ?s33 and points = ?p133
            and mode = PNone and order = PNone and cval = PNone,
            THEN conjunct2, THEN conjunct1, THEN mp, OF hb])
  let ?p3 = "\<lparr>shape = [1, 3], flat = [0, 1 / 4, 1 :: rat], dtype = ''float64''\<rparr>"
  let ?g3 = "\<lparr>shape = [3], flat = [0, 5 / 2, 10 :: rat], dtype = ''float32''\<rparr>"
  have hc: "0 < ndim (image_nd toy_self)
            \<and> prod_list (shape ?p3) = ndim (image_nd toy_self) * 3
            \<and> 3 \<noteq> prod_list (shape (image_nd toy_self))
            \<and> map_coordinates toy_env (image_nd toy_self)
                  (np_transpose (?p3\<lparr>shape := [ndim (image_nd toy_self), 3]\<rparr>))
                  (effective PNone (default_mode toy_self))
                  (effective PNone (default_order toy_self))
                  (effective PNone (default_cval toy_self)) = Inr ?g3
            \<and> prod_list (shape ?g3) = 3"
    by code_simp
  have c: "sample toy_env toy_self ?p3 PNone PNone PNone = (Inl ValueError, toy_self)"
    by (rule sample_reshape_contract[where env = toy_env and self = toy_self and points = ?p3
            and mode = PNone and order = PNone and cval = PNone,
            THEN conjunct2, THEN conjunct2, THEN conjunct1, THEN spec, THEN spec,
            THEN mp, OF hc])
  from a b c show ?thesis by (intro conjI)
qed

text \<open>
  Claim C10 as stated accepts every points array whose size is \<^verbatim>\<open>image.ndim\<close>
  times the size of the image. It fails for an image without axes: its size is 1, so an
  empty points array has the size asked for, and \<^verbatim>\<open>points.reshape(0, -1)\<close> raises
  ValueError.
\<close>

theorem sample_scalar_image_counterexample:
  "prod_list (shape \<lparr>shape = [0], flat = [] :: rat list, dtype = ''float32''\<rparr>) =
     ndim (image_nd (toy_self\<lparr>image_nd := \<lparr>shape = [], flat = [5], dtype = ''float32''\<rparr>\<rparr>))
     * prod_list (shape (image_nd
         (toy_self\<lparr>image_nd := \<lparr>shape = [], flat = [5], dtype = ''float32''\<rparr>\<rparr>)))
   \<and> sample toy_env (toy_self\<lparr>image_nd := \<lparr>shape = [], flat = [5], dtype = ''float32''\<rparr>\<rparr>)
         \<lparr>shape = [0], flat = [], dtype = ''float32''\<rparr> PNone PNone PNone =
       (Inl ValueError,
        toy_self\<lparr>image_nd := \<lparr>shape = [], flat = [5], dtype = ''float32''\<rparr>\<rparr>)"
  by code_simp

subsection \<open>The override order=0\<close>

text \<open>
  Claim C2 says that the explicit override \<^verbatim>\<open>order=0\<close> changes the result of
  \<^verbatim>\<open>sample\<close> on an instance built with the default order 1, where the two orders
  interpolate differently. The code does not do that: \<^verbatim>\<open>order if order else
  self.default_order\<close> takes 0 for an order that was not given. On the two-pixel image
  the kernel gives \<^verbatim>\<open>[0, 10]\<close> with order 0 and \<^verbatim>\<open>[5/2, 10]\<close> with order 1
  at the points 1/4 and 1; \<^verbatim>\<open>sample\<close> returns \<^verbatim>\<open>[5/2, 10]\<close> with and
  without the override. For every instance, kernel and points the override
  \<^verbatim>\<open>order=0\<close> gives the outcome of no override.
\<close>

theorem order_zero_override_ignored:
  "default_order toy_self = PInt 1
   \<and> map_coordinates toy_env (image_nd toy_self)
         \<lparr>shape = [2, 1], flat = [1 / 4, 1], dtype = ''float64''\<rparr>
         (PStr ''constant'') (PInt 0) (PInt 0) =
       Inr \<lparr>shape = [2], flat = [0, 10], dtype = ''float32''\<rparr>
   \<and> map_coordinates toy_env (image_nd toy_self)
         \<lparr>shape = [2, 1], flat = [1 / 4, 1], dtype = ''float64''\<rparr>
         (PStr ''constant'') (PInt 1) (PInt 0) =
       Inr \<lparr>shape = [2], flat = [5 / 2, 10], dtype = ''float32''\<rparr>
   \<and> fst (sample toy_env toy_self toy_points PNone PNone PNone) =
       Inr \<lparr>shape = [2], flat = [5 / 2, 10], dtype = ''float32''\<rparr>
   \<and> fst (sample toy_env toy_self toy_points PNone (PInt 0) PNone) =
       Inr \<lparr>shape = [2], flat = [5 / 2, 10], dtype = ''float32''\<rparr>
   \<and> sample env self points mode (PInt 0) cval = sample env self points mode PNone cval"
proof -
  have a: "default_order toy_self = PInt 1" by code_simp
  have b: "map_coordinates toy_env (image_nd toy_self)
         \<lparr>shape = [2, 1], flat = [1 / 4, 1], dtype = ''float64''\<rparr>
         (PStr ''constant'') (PInt 0) (PInt 0) =
       Inr \<lparr>shape = [2], flat = [0, 10], dtype = ''float32''\<rparr>" by code_simp
  have c: "map_coordinates toy_env (image_nd toy_self)
         \<lparr>shape = [2, 1], flat = [1 / 4, 1], dtype = ''float64''\<rparr>
         (PStr ''constant'') (PInt 1) (PInt 0) =
       Inr \<lparr>shape = [2], flat = [5 / 2, 10], dtype = ''float32''\<rparr>" by code_simp
  have d: "fst (sample toy_env toy_self toy_points PNone PNone PNone) =
       Inr \<lparr>shape = [2], flat = [5 / 2, 10], dtype = ''float32''\<rparr>" by code_simp
  have e: "fst (sample toy_env toy_self toy_points PNone (PInt 0) PNone) =
       Inr \<lparr>shape = [2], flat = [5 / 2, 10], dtype = ''float32''\<rparr>" by code_simp
  have f: "sample env self points mode (PInt 0) cval = sample env self points mode PNone cval"
    by (rule outcome_eqI[OF sample_depends sample_snd sample_snd])
       (simp_all only: effective_zero)
  from a b c d e f show ?thesis by (intro conjI)
qed

end
